theory Spec2Isabelle
  imports Main "HOL-Library.AList" "HOL-Library.Sublist"
begin

section \<open>The orchestrator core of trident (core/orchestrator\_core.go)\<close>

text \<open>
  The orchestrator keeps an in-memory catalog of backends, storage pools, volumes and
  storage classes, and mirrors it in a persistent store. The Go code works on pointers
  (\<^verbatim>\<open>*storage.StorageBackend\<close>, \<^verbatim>\<open>*storage.StoragePool\<close>, \<^verbatim>\<open>*storage.Volume\<close>), so the model
  keeps an explicit store of objects: a reference is a number, and the orchestrator state
  maps references to the objects' current fields. Go maps that the code iterates over are
  association lists; their order stands for the order in which one run of the program
  happens to range over the map.
\<close>

subsection \<open>Configuration values and errors\<close>

datatype Protocol = File | Block | ProtocolAny

text \<open>\<^verbatim>\<open>config.AccessMode\<close> is a string type: any value besides the three named ones is possible.\<close>

datatype AccessMode = ReadWriteOnce | ReadOnlyMany | ReadWriteMany | OtherMode string

text \<open>
  Modelled from the spec: the error values of the persistent store
  (\<^verbatim>\<open>persistent_store.KeyError\<close>, \<^verbatim>\<open>persistent_store.KeyErrorMsg\<close>) and
  \<^verbatim>\<open>context.DeadlineExceeded\<close> are declared outside this file. An error is a value with a
  dynamic type and a message; \<open>Errorf\<close> is any other error, as \<^verbatim>\<open>fmt.Errorf\<close> builds it.
  The code recognises a key error by comparing the message with \<open>KeyErrorMsg\<close>, so
  that is the message a \<open>KeyError\<close> carries.
\<close>

datatype error = KeyError string | DeadlineExceeded | Errorf string

definition KeyErrorMsg :: string where
  "KeyErrorMsg = ''Unable to find key''"

fun Error :: "error \<Rightarrow> string" where
  "Error (KeyError k) = KeyErrorMsg"
| "Error DeadlineExceeded = ''context deadline exceeded''"
| "Error (Errorf s) = s"

text \<open>A Go function either returns or panics (a nil dereference, a failed type assertion).\<close>

datatype 'a res = Return 'a | Panic

record VolumeConfig =
  cfg_Name :: string
  cfg_Size :: string
  cfg_StorageClass :: string
  cfg_Protocol :: Protocol
  cfg_AccessMode :: AccessMode
  cfg_Version :: string

datatype VolumeOperation = AddVolumeOp | DeleteVolumeOp

record VolumeTransaction =
  txn_Config :: VolumeConfig
  txn_Op :: VolumeOperation

subsection \<open>Objects of package storage\<close>

type_synonym bref = nat
type_synonym pref = nat
type_synonym vref = nat
type_synonym Attributes = "(string \<times> string) list"

record StorageBackend =
  be_Name :: string
  be_Online :: bool
  be_Protocol :: Protocol
  be_DriverName :: string
  be_StoragePrefix :: string
  be_Storage :: "(string \<times> pref) list"

record StoragePool =
  pool_Name :: string
  pool_Backend :: bref
  pool_Attributes :: Attributes
  pool_StorageClasses :: "string list"
  pool_Volumes :: "(string \<times> vref) list"

record Volume =
  vol_Config :: VolumeConfig
  vol_Backend :: bref
  vol_Pool :: pref

text \<open>What \<^verbatim>\<open>ConstructExternal\<close> hands out, and what the store keeps: names, no pointers.\<close>

record VolumeExternal =
  vx_Config :: VolumeConfig
  vx_Backend :: string
  vx_Pool :: string

record BackendConfig =
  bc_Name :: string
  bc_Protocol :: Protocol
  bc_DriverName :: string
  bc_StoragePrefix :: string
  bc_Pools :: "(string \<times> Attributes) list"

record BackendPersistent =
  pb_Name :: string
  pb_Online :: bool
  pb_Config :: BackendConfig

text \<open>
  Modelled from the spec: a storage class is a named predicate over pool attributes that
  materialises the pools satisfying it. The predicate is a list of required attribute
  values here.
\<close>

record StorageClass =
  sc_Name :: string
  sc_Required :: Attributes
  sc_Pools :: "pref list"

subsection \<open>The persistent store and the environment\<close>

text \<open>
  Modelled from the spec: the persistent store client is outside this file. Its state is
  four flat maps keyed by entity name.
\<close>

record store =
  ps_backends :: "(string \<times> BackendPersistent) list"
  ps_storageClasses :: "(string \<times> StorageClass) list"
  ps_volumes :: "(string \<times> VolumeExternal) list"
  ps_transactions :: "(string \<times> VolumeTransaction) list"

text \<open>
  Every call that leaves the orchestrator (to the store, to a backend's driver, to the
  backend factory) may fail. The environment of one operation says which calls fail and
  with which error, as a function of the call's arguments; \<open>None\<close> is success. It also
  holds the constants of package config that the code reads and the permutation that
  \<^verbatim>\<open>rand.Perm\<close> returns for a length. A call to
  the store that fails leaves the store as it was. \<open>GetBackends\<close> is asked repeatedly, so
  its outcome depends on the number of the attempt. \<open>DeleteVolumeTransaction\<close> is called
  from the rollback and from the operations themselves: the flag tells the two apart.
  \<open>f_Errorf\<close> is the message that \<^verbatim>\<open>fmt.Errorf\<close> builds from a format string that it is
  given without operands; it is read only for a format string that contains a \<open>%\<close>.
\<close>

datatype CreateOutcome = Created | CreateFailed error | NothingCreated

record environment =
  MaxBootstrapAttempts :: nat
  OrchestratorMajorVersion :: string
  BackendURL :: string
  f_GetBackends :: "nat \<Rightarrow> error option"
  f_GetStorageClasses :: "error option"
  f_GetVolumes :: "error option"
  f_GetVolumeTransactions :: "error option"
  f_AddBackend :: "string \<Rightarrow> error option"
  f_UpdateBackend :: "string \<Rightarrow> error option"
  f_DeleteBackend :: "string \<Rightarrow> error option"
  f_AddStorageClass :: "string \<Rightarrow> error option"
  f_DeleteStorageClass :: "string \<Rightarrow> error option"
  f_AddVolume :: "string \<Rightarrow> error option"
  f_DeleteVolumeIgnoreNotFound :: "string \<Rightarrow> error option"
  f_GetExistingVolumeTransaction :: "string \<Rightarrow> error option"
  f_AddVolumeTransaction :: "string \<Rightarrow> VolumeOperation \<Rightarrow> error option"
  f_DeleteVolumeTransaction :: "bool \<Rightarrow> string \<Rightarrow> VolumeOperation \<Rightarrow> error option"
  f_Destroy :: "string \<Rightarrow> string \<Rightarrow> error option"
  f_Create :: "string \<Rightarrow> string \<Rightarrow> string \<Rightarrow> CreateOutcome"
  f_MarshalConfig :: "string \<Rightarrow> error option"
  f_NewStorageBackendForConfig :: "BackendConfig \<Rightarrow> error option"
  perm :: "nat \<Rightarrow> nat list"
  f_Errorf :: "string \<Rightarrow> string"

subsection \<open>The orchestrator\<close>

text \<open>
  The fields of \<^verbatim>\<open>tridentOrchestrator\<close>, the objects its pointers reach, the store behind
  \<^verbatim>\<open>storeClient\<close>, and two logs of what was done outside: the \<^verbatim>\<open>Destroy\<close> calls made (backend
  object and internal volume name) and the seconds slept.
\<close>

record tridentOrchestrator =
  backends :: "(string \<times> bref) list"
  volumes :: "(string \<times> vref) list"
  storageClasses :: "(string \<times> StorageClass) list"
  bootstrapped :: bool
  backendObjs :: "bref \<Rightarrow> StorageBackend"
  poolObjs :: "pref \<Rightarrow> StoragePool"
  volumeObjs :: "vref \<Rightarrow> Volume"
  nextRef :: nat
  storeClient :: store
  destroyed :: "(bref \<times> string) list"
  slept :: nat

subsection \<open>Calls to the persistent store\<close>

definition with_store :: "(store \<Rightarrow> store) \<Rightarrow> tridentOrchestrator \<Rightarrow> tridentOrchestrator" where
  "with_store f st = st\<lparr>storeClient := f (storeClient st)\<rparr>"

definition failing :: "error option \<Rightarrow> (store \<Rightarrow> store) \<Rightarrow> tridentOrchestrator
    \<Rightarrow> error option \<times> tridentOrchestrator" where
  "failing outcome effect st =
     (case outcome of Some e \<Rightarrow> (Some e, st) | None \<Rightarrow> (None, with_store effect st))"

definition ConstructExternalBackend :: "tridentOrchestrator \<Rightarrow> bref \<Rightarrow> BackendPersistent" where
  "ConstructExternalBackend st b =
     (let be = backendObjs st b in
      \<lparr>pb_Name = be_Name be, pb_Online = be_Online be,
       pb_Config = \<lparr>bc_Name = be_Name be, bc_Protocol = be_Protocol be,
         bc_DriverName = be_DriverName be, bc_StoragePrefix = be_StoragePrefix be,
         bc_Pools = map (\<lambda>(n, p). (n, pool_Attributes (poolObjs st p))) (be_Storage be)\<rparr>\<rparr>)"

definition ConstructExternal :: "tridentOrchestrator \<Rightarrow> vref \<Rightarrow> VolumeExternal" where
  "ConstructExternal st v =
     (let vol = volumeObjs st v in
      \<lparr>vx_Config = vol_Config vol, vx_Backend = be_Name (backendObjs st (vol_Backend vol)),
       vx_Pool = pool_Name (poolObjs st (vol_Pool vol))\<rparr>)"

definition store_AddBackend :: "environment \<Rightarrow> bref \<Rightarrow> tridentOrchestrator \<Rightarrow> error option \<times> tridentOrchestrator" where
  "store_AddBackend env b st =
     failing (f_AddBackend env (be_Name (backendObjs st b)))
       (\<lambda>s. s\<lparr>ps_backends := AList.update (be_Name (backendObjs st b))
                 (ConstructExternalBackend st b) (ps_backends s)\<rparr>) st"

definition store_UpdateBackend :: "environment \<Rightarrow> bref \<Rightarrow> tridentOrchestrator \<Rightarrow> error option \<times> tridentOrchestrator" where
  "store_UpdateBackend env b st =
     failing (f_UpdateBackend env (be_Name (backendObjs st b)))
       (\<lambda>s. s\<lparr>ps_backends := AList.update (be_Name (backendObjs st b))
                 (ConstructExternalBackend st b) (ps_backends s)\<rparr>) st"

definition store_DeleteBackend :: "environment \<Rightarrow> bref \<Rightarrow> tridentOrchestrator \<Rightarrow> error option \<times> tridentOrchestrator" where
  "store_DeleteBackend env b st =
     failing (f_DeleteBackend env (be_Name (backendObjs st b)))
       (\<lambda>s. s\<lparr>ps_backends := AList.delete (be_Name (backendObjs st b)) (ps_backends s)\<rparr>) st"

definition store_AddVolume :: "environment \<Rightarrow> vref \<Rightarrow> tridentOrchestrator \<Rightarrow> error option \<times> tridentOrchestrator" where
  "store_AddVolume env v st =
     failing (f_AddVolume env (cfg_Name (vol_Config (volumeObjs st v))))
       (\<lambda>s. s\<lparr>ps_volumes := AList.update (cfg_Name (vol_Config (volumeObjs st v)))
                 (ConstructExternal st v) (ps_volumes s)\<rparr>) st"

definition store_DeleteVolumeIgnoreNotFound :: "environment \<Rightarrow> vref \<Rightarrow> tridentOrchestrator
    \<Rightarrow> error option \<times> tridentOrchestrator" where
  "store_DeleteVolumeIgnoreNotFound env v st =
     failing (f_DeleteVolumeIgnoreNotFound env (cfg_Name (vol_Config (volumeObjs st v))))
       (\<lambda>s. s\<lparr>ps_volumes := AList.delete (cfg_Name (vol_Config (volumeObjs st v))) (ps_volumes s)\<rparr>) st"

definition store_AddVolumeTransaction :: "environment \<Rightarrow> VolumeTransaction \<Rightarrow> tridentOrchestrator
    \<Rightarrow> error option \<times> tridentOrchestrator" where
  "store_AddVolumeTransaction env t st =
     failing (f_AddVolumeTransaction env (cfg_Name (txn_Config t)) (txn_Op t))
       (\<lambda>s. s\<lparr>ps_transactions := AList.update (cfg_Name (txn_Config t)) t (ps_transactions s)\<rparr>) st"

definition store_DeleteVolumeTransaction :: "environment \<Rightarrow> bool \<Rightarrow> VolumeTransaction \<Rightarrow> tridentOrchestrator
    \<Rightarrow> error option \<times> tridentOrchestrator" where
  "store_DeleteVolumeTransaction env inRollback t st =
     failing (f_DeleteVolumeTransaction env inRollback (cfg_Name (txn_Config t)) (txn_Op t))
       (\<lambda>s. s\<lparr>ps_transactions := AList.delete (cfg_Name (txn_Config t)) (ps_transactions s)\<rparr>) st"

definition store_GetExistingVolumeTransaction :: "environment \<Rightarrow> VolumeTransaction \<Rightarrow> tridentOrchestrator
    \<Rightarrow> error + VolumeTransaction option" where
  "store_GetExistingVolumeTransaction env t st =
     (case f_GetExistingVolumeTransaction env (cfg_Name (txn_Config t)) of
        Some e \<Rightarrow> Inl e
      | None \<Rightarrow> Inr (map_of (ps_transactions (storeClient st)) (cfg_Name (txn_Config t))))"

subsection \<open>Methods of package storage\<close>

text \<open>
  Modelled from the spec: \<^verbatim>\<open>StorageBackend.HasVolumes\<close>, \<^verbatim>\<open>GetInternalVolumeName\<close> and
  \<^verbatim>\<open>StorageBackend.RemoveVolume\<close> are outside this file. A backend has volumes iff any of
  its pools contains at least one; the internal name is the volume's name behind the
  backend's fixed prefix; removing a volume asks the driver to destroy it and, when the
  driver succeeds, takes it out of its pool's volume map.
\<close>

definition HasVolumes :: "tridentOrchestrator \<Rightarrow> bref \<Rightarrow> bool" where
  "HasVolumes st b =
     list_ex (\<lambda>(n, p). pool_Volumes (poolObjs st p) \<noteq> []) (be_Storage (backendObjs st b))"

definition GetInternalVolumeName :: "StorageBackend \<Rightarrow> string \<Rightarrow> string" where
  "GetInternalVolumeName be name = be_StoragePrefix be @ name"

definition driver_Destroy :: "environment \<Rightarrow> bref \<Rightarrow> string \<Rightarrow> tridentOrchestrator
    \<Rightarrow> error option \<times> tridentOrchestrator" where
  "driver_Destroy env b internalName st =
     (f_Destroy env (be_Name (backendObjs st b)) internalName,
      st\<lparr>destroyed := destroyed st @ [(b, internalName)]\<rparr>)"

definition backend_RemoveVolume :: "environment \<Rightarrow> bref \<Rightarrow> vref \<Rightarrow> tridentOrchestrator
    \<Rightarrow> error option \<times> tridentOrchestrator" where
  "backend_RemoveVolume env b v st =
     (let vol = volumeObjs st v; name = cfg_Name (vol_Config vol) in
      case driver_Destroy env b (GetInternalVolumeName (backendObjs st b) name) st of
        (Some err, st1) \<Rightarrow> (Some err, st1)
      | (None, st1) \<Rightarrow>
          (None, st1\<lparr>poolObjs := (poolObjs st1)(vol_Pool vol :=
             (poolObjs st1 (vol_Pool vol))\<lparr>pool_Volumes :=
                AList.delete name (pool_Volumes (poolObjs st1 (vol_Pool vol)))\<rparr>)\<rparr>))"

subsection \<open>deleteVolume and DeleteVolume\<close>

text \<open>
  \<^verbatim>\<open>deleteVolume\<close> assumes that the volume is in memory: on a name that is not, the Go code
  dereferences a nil pointer.
\<close>

definition deleteVolume :: "environment \<Rightarrow> string \<Rightarrow> tridentOrchestrator
    \<Rightarrow> (error option \<times> tridentOrchestrator) res" where
  "deleteVolume env volumeName st =
     (case map_of (volumes st) volumeName of
        None \<Rightarrow> Panic
      | Some volume \<Rightarrow>
          (let b = vol_Backend (volumeObjs st volume) in
           case backend_RemoveVolume env b volume st of
             (Some err, st1) \<Rightarrow> Return (Some err, st1)
           | (None, st1) \<Rightarrow>
               (case store_DeleteVolumeIgnoreNotFound env volume st1 of
                  (Some err, st2) \<Rightarrow> Return (Some err, st2)
                | (None, st2) \<Rightarrow>
                    if \<not> be_Online (backendObjs st2 b) \<and> \<not> HasVolumes st2 b then
                      (case store_DeleteBackend env b st2 of
                         (Some err, st3) \<Rightarrow> Return (Some err, st3)
                       | (None, st3) \<Rightarrow>
                           Return (None,
                             st3\<lparr>backends := AList.delete (be_Name (backendObjs st3 b)) (backends st3),
                                 volumes := AList.delete volumeName (volumes st3)\<rparr>))
                    else Return (None, st2\<lparr>volumes := AList.delete volumeName (volumes st2)\<rparr>))))"

definition DeleteVolume :: "environment \<Rightarrow> string \<Rightarrow> tridentOrchestrator
    \<Rightarrow> ((bool \<times> error option) \<times> tridentOrchestrator) res" where
  "DeleteVolume env volumeName st =
     (case map_of (volumes st) volumeName of
        None \<Rightarrow> Return ((False, Some (Errorf (''Volume '' @ volumeName @ '' not found.''))), st)
      | Some volume \<Rightarrow>
          (let volTxn = \<lparr>txn_Config = vol_Config (volumeObjs st volume), txn_Op = DeleteVolumeOp\<rparr> in
           case store_AddVolumeTransaction env volTxn st of
             (Some err, st1) \<Rightarrow> Return ((True, Some err), st1)
           | (None, st1) \<Rightarrow>
               (case deleteVolume env volumeName st1 of
                  Panic \<Rightarrow> Panic
                | Return (Some err, st2) \<Rightarrow> Return ((True, Some err), st2)
                | Return (None, st2) \<Rightarrow>
                    (case store_DeleteVolumeTransaction env False volTxn st2 of
                       (Some err, st3) \<Rightarrow>
                         Return ((True, None),
                           st3\<lparr>volumes := AList.update volumeName volume (volumes st3)\<rparr>)
                     | (None, st3) \<Rightarrow> Return ((True, None), st3)))))"

subsection \<open>rollBackTransaction\<close>

text \<open>
  The loop of \<^verbatim>\<open>rollBackTransaction\<close> over \<^verbatim>\<open>o.backends\<close>: offline backends are skipped, the
  first failing \<^verbatim>\<open>Destroy\<close> ends the rollback with an error.
\<close>

fun destroyOnBackends :: "environment \<Rightarrow> string \<Rightarrow> (string \<times> bref) list \<Rightarrow> tridentOrchestrator
    \<Rightarrow> error option \<times> tridentOrchestrator" where
  "destroyOnBackends env name [] st = (None, st)"
| "destroyOnBackends env name ((bn, backend) # rest) st =
     (if \<not> be_Online (backendObjs st backend) then destroyOnBackends env name rest st
      else
        (case driver_Destroy env backend
                (GetInternalVolumeName (backendObjs st backend) name) st of
           (Some err, st1) \<Rightarrow>
             (Some (Errorf (''Error attempting to clean up volume '' @ name @ '' from backend ''
                @ be_Name (backendObjs st backend) @ '':  '' @ Error err)), st1)
         | (None, st1) \<Rightarrow> destroyOnBackends env name rest st1))"

definition rollBackTransaction :: "environment \<Rightarrow> VolumeTransaction \<Rightarrow> tridentOrchestrator
    \<Rightarrow> (error option \<times> tridentOrchestrator) res" where
  "rollBackTransaction env v st =
     (let name = cfg_Name (txn_Config v) in
      case txn_Op v of
        AddVolumeOp \<Rightarrow>
          (case (if map_of (volumes st) name \<noteq> None then
                   (case deleteVolume env name st of
                      Panic \<Rightarrow> Panic
                    | Return (Some err, st1) \<Rightarrow>
                        Return (Some (Errorf (''Unable to clean up volume '' @ name @ '':  ''
                          @ Error err)), st1)
                    | Return (None, st1) \<Rightarrow> Return (None, st1))
                 else Return (destroyOnBackends env name (backends st) st)) of
             Panic \<Rightarrow> Panic
           | Return (Some err, st1) \<Rightarrow> Return (Some err, st1)
           | Return (None, st1) \<Rightarrow>
               (case store_DeleteVolumeTransaction env True v st1 of
                  (Some err, st2) \<Rightarrow>
                    Return (Some (Errorf (''Failed to clean up volume addition transaction: ''
                      @ Error err)), st2)
                | (None, st2) \<Rightarrow> Return (None, st2)))
      | DeleteVolumeOp \<Rightarrow>
          (case (if map_of (volumes st) name \<noteq> None then
                   (case deleteVolume env name st of
                      Panic \<Rightarrow> Panic
                    | Return (Some err, st1) \<Rightarrow>
                        Return (Some (Errorf (''Unable to clean up deleted volume '' @ name
                          @ '':  '' @ Error err)), st1)
                    | Return (None, st1) \<Rightarrow> Return (None, st1))
                 else Return (None, st)) of
             Panic \<Rightarrow> Panic
           | Return (Some err, st1) \<Rightarrow> Return (Some err, st1)
           | Return (None, st1) \<Rightarrow>
               (case store_DeleteVolumeTransaction env True v st1 of
                  (Some err, st2) \<Rightarrow>
                    Return (Some (Errorf (''Failed to clean up volume deletion transaction:  ''
                      @ Error err)), st2)
                | (None, st2) \<Rightarrow> Return (None, st2))))"

text \<open>
  For the statements about the rollback: the \<^verbatim>\<open>Destroy\<close> calls that reach every online
  backend of a list, in the list's order, with the backend's internal name of the volume.
\<close>

definition destroyCalls :: "tridentOrchestrator \<Rightarrow> string \<Rightarrow> (string \<times> bref) list
    \<Rightarrow> (bref \<times> string) list" where
  "destroyCalls st name bs =
     map (\<lambda>(n, b). (b, GetInternalVolumeName (backendObjs st b) name))
       (filter (\<lambda>(n, b). be_Online (backendObjs st b)) bs)"

text \<open>
  The online backends of a list, in the list's order, and what the driver answers to the
  \<^verbatim>\<open>Destroy\<close> of the volume on one backend.
\<close>

definition onlineBackends :: "tridentOrchestrator \<Rightarrow> (string \<times> bref) list
    \<Rightarrow> (string \<times> bref) list" where
  "onlineBackends st bs = filter (\<lambda>(n, b). be_Online (backendObjs st b)) bs"

definition destroyResult :: "environment \<Rightarrow> tridentOrchestrator \<Rightarrow> string
    \<Rightarrow> string \<times> bref \<Rightarrow> error option" where
  "destroyResult env st name =
     (\<lambda>(n, b). f_Destroy env (be_Name (backendObjs st b))
                 (GetInternalVolumeName (backendObjs st b) name))"

subsection \<open>AddVolume\<close>

fun getProtocol :: "AccessMode \<Rightarrow> Protocol" where
  "getProtocol ReadWriteOnce = ProtocolAny"
| "getProtocol ReadOnlyMany = File"
| "getProtocol ReadWriteMany = File"
| "getProtocol (OtherMode m) = ProtocolAny"

text \<open>\<^verbatim>\<open>config.Protocol\<close> is a string type; \<^verbatim>\<open>ProtocolAny\<close> is the empty string.\<close>

fun protocolString :: "Protocol \<Rightarrow> string" where
  "protocolString File = ''file''"
| "protocolString Block = ''block''"
| "protocolString ProtocolAny = ''''"

fun Join :: "string list \<Rightarrow> string \<Rightarrow> string" where
  "Join [] sep = ''''"
| "Join [x] sep = x"
| "Join (x # y # zs) sep = x @ sep @ Join (y # zs) sep"

text \<open>
  Modelled from the spec: \<^verbatim>\<open>StorageClass.GetStoragePoolsForProtocol\<close> is outside this file.
  It returns the current members whose backend carries the protocol, or all members when
  the protocol is \<open>Any\<close>.
\<close>

definition GetStoragePoolsForProtocol :: "tridentOrchestrator \<Rightarrow> StorageClass \<Rightarrow> Protocol
    \<Rightarrow> pref list" where
  "GetStoragePoolsForProtocol st sc p =
     filter (\<lambda>pool. p = ProtocolAny
                \<or> be_Protocol (backendObjs st (pool_Backend (poolObjs st pool))) = p)
       (sc_Pools sc)"

text \<open>
  Modelled from the spec: \<^verbatim>\<open>StorageBackend.AddVolume\<close> is outside this file. The driver
  creates the volume, fails, or declines without an error; a created volume is a new
  object that refers to its backend and pool and is entered in the pool's volume map
  (as \<^verbatim>\<open>bootstrapVolumes\<close> does with \<^verbatim>\<open>NewVolume\<close> and \<^verbatim>\<open>Pool.AddVolume\<close>).
\<close>

definition NewVolume :: "VolumeConfig \<Rightarrow> bref \<Rightarrow> pref \<Rightarrow> tridentOrchestrator
    \<Rightarrow> vref \<times> tridentOrchestrator" where
  "NewVolume cfg b p st =
     (nextRef st,
      st\<lparr>nextRef := Suc (nextRef st),
         volumeObjs := (volumeObjs st)(nextRef st :=
           \<lparr>vol_Config = cfg, vol_Backend = b, vol_Pool = p\<rparr>)\<rparr>)"

definition pool_AddVolume :: "pref \<Rightarrow> vref \<Rightarrow> tridentOrchestrator \<Rightarrow> tridentOrchestrator" where
  "pool_AddVolume p v st =
     st\<lparr>poolObjs := (poolObjs st)(p := (poolObjs st p)\<lparr>pool_Volumes :=
          AList.update (cfg_Name (vol_Config (volumeObjs st v))) v
            (pool_Volumes (poolObjs st p))\<rparr>)\<rparr>"

definition backend_AddVolume :: "environment \<Rightarrow> VolumeConfig \<Rightarrow> bref \<Rightarrow> pref
    \<Rightarrow> tridentOrchestrator \<Rightarrow> (vref option \<times> error option) \<times> tridentOrchestrator" where
  "backend_AddVolume env cfg b p st =
     (case f_Create env (be_Name (backendObjs st b)) (pool_Name (poolObjs st p)) (cfg_Name cfg) of
        Created \<Rightarrow>
          (let (v, st1) = NewVolume cfg b p st in ((Some v, None), pool_AddVolume p v st1))
      | CreateFailed e \<Rightarrow> ((None, Some e), st)
      | NothingCreated \<Rightarrow> ((None, None), st))"

text \<open>The error that \<^verbatim>\<open>AddVolume\<close> builds once the loop over the pools has found no place.\<close>

definition placementError :: "environment \<Rightarrow> VolumeConfig \<Rightarrow> string list \<Rightarrow> error" where
  "placementError env volumeConfig errorMessages =
     (if length errorMessages = 0 then
        Errorf (''No suitable '' @ protocolString (cfg_Protocol volumeConfig)
          @ '' backend with \"'' @ cfg_StorageClass volumeConfig
          @ ''\" storage class and '' @ cfg_Size volumeConfig
          @ '' of free space was found! Find available backends under ''
          @ BackendURL env @ ''.'')
      else
        Errorf (''Encountered error(s) in creating the volume: ''
          @ Join errorMessages '', ''))"

text \<open>
  The loop of \<^verbatim>\<open>AddVolume\<close> over \<^verbatim>\<open>rand.Perm(len(pools))\<close>. It carries the variables that
  the deferred function reads afterwards: \<^verbatim>\<open>backend\<close> and \<^verbatim>\<open>vol\<close> as last assigned, and the
  error messages. An index outside \<^verbatim>\<open>pools\<close> would panic.
\<close>

fun placeVolume :: "environment \<Rightarrow> VolumeConfig \<Rightarrow> pref list \<Rightarrow> nat list
    \<Rightarrow> bref option \<Rightarrow> vref option \<Rightarrow> string list \<Rightarrow> tridentOrchestrator
    \<Rightarrow> (VolumeExternal option \<times> error option \<times> bref option \<times> vref option
        \<times> tridentOrchestrator) res" where
  "placeVolume env volumeConfig pools [] backend vol errorMessages st =
     Return (None, Some (placementError env volumeConfig errorMessages), backend, vol, st)"
| "placeVolume env volumeConfig pools (num # nums) backend0 vol0 errorMessages st =
     (if num \<ge> length pools then Panic
      else
        (let pool = pools ! num; backend = pool_Backend (poolObjs st pool) in
         case backend_AddVolume env volumeConfig backend pool st of
           ((Some vol, None), st1) \<Rightarrow>
             (let st2 =
                (if cfg_Protocol (vol_Config (volumeObjs st1 vol)) = ProtocolAny then
                   st1\<lparr>volumeObjs := (volumeObjs st1)(vol := (volumeObjs st1 vol)\<lparr>vol_Config :=
                     (vol_Config (volumeObjs st1 vol))\<lparr>cfg_Protocol :=
                        be_Protocol (backendObjs st1 backend)\<rparr>\<rparr>)\<rparr>
                 else st1) in
              case store_AddVolume env vol st2 of
                (Some err, st3) \<Rightarrow> Return (None, Some err, Some backend, Some vol, st3)
              | (None, st3) \<Rightarrow>
                  (let st4 = st3\<lparr>volumes := AList.update (cfg_Name volumeConfig) vol (volumes st3)\<rparr>
                   in Return (Some (ConstructExternal st4 vol), None, Some backend, Some vol, st4)))
         | ((vol, Some err), st1) \<Rightarrow>
             placeVolume env volumeConfig pools nums (Some backend) vol
               (errorMessages @
                 [''[Failed to create volume '' @ cfg_Name volumeConfig @ '' on storage pool ''
                  @ pool_Name (poolObjs st1 pool) @ '' from backend ''
                  @ be_Name (backendObjs st1 backend) @ '': '' @ Error err @ '']'']) st1
         | ((vol, None), st1) \<Rightarrow>
             placeVolume env volumeConfig pools nums (Some backend) vol errorMessages st1))"

text \<open>The deferred recovery function of \<^verbatim>\<open>AddVolume\<close>, run on every return after it is set up.\<close>

definition AddVolume_deferred :: "environment \<Rightarrow> VolumeConfig \<Rightarrow> VolumeTransaction
    \<Rightarrow> VolumeExternal option \<times> error option \<times> bref option \<times> vref option \<times> tridentOrchestrator
    \<Rightarrow> (VolumeExternal option \<times> error option) \<times> tridentOrchestrator" where
  "AddVolume_deferred env volumeConfig volTxn r =
     (case r of (externalVol, err, backend, vol, st) \<Rightarrow>
        (let (cleanupErr, st1) =
               (case (err, backend, vol) of
                  (Some e, Some b, Some v) \<Rightarrow>
                    (case backend_RemoveVolume env b v st of
                       (Some ce, s) \<Rightarrow>
                         (Some (Errorf (''Unable to delete volume from backend during cleanup:  ''
                            @ Error ce)), s)
                     | (None, s) \<Rightarrow> (None, s))
                | _ \<Rightarrow> (None, st));
             (txErr, st2) =
               (if cleanupErr = None then store_DeleteVolumeTransaction env False volTxn st1
                else (None, st1))
         in if cleanupErr \<noteq> None \<or> txErr \<noteq> None then
              ((None, Some (Errorf (Join (map Error (List.map_filter id [err, cleanupErr, txErr]))
                  [CHR 0x0A, CHR 0x09]))),
               st2\<lparr>volumes := AList.delete (cfg_Name volumeConfig) (volumes st2)\<rparr>)
            else ((externalVol, err), st2)))"

definition AddVolume :: "environment \<Rightarrow> VolumeConfig \<Rightarrow> tridentOrchestrator
    \<Rightarrow> ((VolumeExternal option \<times> error option) \<times> tridentOrchestrator) res" where
  "AddVolume env volumeConfig0 st =
     (if map_of (volumes st) (cfg_Name volumeConfig0) \<noteq> None then
        Return ((None, Some (Errorf (''Volume '' @ cfg_Name volumeConfig0 @ '' already exists.''))), st)
      else
        (let volumeConfig = volumeConfig0\<lparr>cfg_Version := OrchestratorMajorVersion env\<rparr> in
         case map_of (storageClasses st) (cfg_StorageClass volumeConfig) of
           None \<Rightarrow>
             Return ((None, Some (Errorf (''Unknown storage class:  ''
               @ cfg_StorageClass volumeConfig))), st)
         | Some storageClass \<Rightarrow>
             (let protocol =
                    (if cfg_Protocol volumeConfig = ProtocolAny
                     then getProtocol (cfg_AccessMode volumeConfig)
                     else cfg_Protocol volumeConfig);
                  pools = GetStoragePoolsForProtocol st storageClass (cfg_Protocol volumeConfig)
              in if length pools = 0 then
                   Return ((None, Some (Errorf (''No available backends for storage class ''
                     @ cfg_StorageClass volumeConfig @ ''!''))), st)
                 else
                   (let volTxn = \<lparr>txn_Config = volumeConfig, txn_Op = AddVolumeOp\<rparr> in
                    case store_GetExistingVolumeTransaction env volTxn st of
                      Inl err \<Rightarrow> Return ((None, Some err), st)
                    | Inr oldTxn \<Rightarrow>
                        (case (case oldTxn of
                                 None \<Rightarrow> Return (None, st)
                               | Some t \<Rightarrow> rollBackTransaction env t st) of
                           Panic \<Rightarrow> Panic
                         | Return (Some err, st1) \<Rightarrow>
                             Return ((None, Some (Errorf
                               (''Unable to roll back existing transaction for volume ''
                                @ cfg_Name volumeConfig @ '':  '' @ Error err))), st1)
                         | Return (None, st1) \<Rightarrow>
                             (case store_AddVolumeTransaction env volTxn st1 of
                                (Some err, st2) \<Rightarrow> Return ((None, Some err), st2)
                              | (None, st2) \<Rightarrow>
                                  (case placeVolume env volumeConfig pools
                                          (perm env (length pools)) None None [] st2 of
                                     Panic \<Rightarrow> Panic
                                   | Return r \<Rightarrow>
                                       Return (AddVolume_deferred env volumeConfig volTxn r))))))))"

subsection \<open>Storage classes\<close>

text \<open>
  Modelled from the spec: the methods of \<^verbatim>\<open>storage_class.StorageClass\<close> are outside this
  file. \<^verbatim>\<open>Matches\<close> evaluates the predicate on a pool; \<^verbatim>\<open>CheckAndAddBackend\<close> adds the pools
  of a backend that satisfy the class, records the class on each such pool and returns
  their number; \<^verbatim>\<open>RemovePoolsForBackend\<close> drops all pools of a backend from the class.
\<close>

definition Matches :: "StorageClass \<Rightarrow> StoragePool \<Rightarrow> bool" where
  "Matches sc pool = list_all (\<lambda>(k, v). map_of (pool_Attributes pool) k = Some v) (sc_Required sc)"

definition CheckAndAddBackend :: "StorageClass \<Rightarrow> bref \<Rightarrow> tridentOrchestrator
    \<Rightarrow> nat \<times> StorageClass \<times> tridentOrchestrator" where
  "CheckAndAddBackend sc b st =
     (let ps = filter (\<lambda>p. Matches sc (poolObjs st p)) (map snd (be_Storage (backendObjs st b)))
      in (length ps, sc\<lparr>sc_Pools := sc_Pools sc @ ps\<rparr>,
          st\<lparr>poolObjs := (\<lambda>p. if p \<in> set ps
                 then (poolObjs st p)\<lparr>pool_StorageClasses :=
                        pool_StorageClasses (poolObjs st p) @ [sc_Name sc]\<rparr>
                 else poolObjs st p)\<rparr>))"

definition RemovePoolsForBackend :: "StorageClass \<Rightarrow> bref \<Rightarrow> tridentOrchestrator \<Rightarrow> StorageClass" where
  "RemovePoolsForBackend sc b st =
     sc\<lparr>sc_Pools := filter (\<lambda>p. pool_Backend (poolObjs st p) \<noteq> b) (sc_Pools sc)\<rparr>"

subsection \<open>validateBackendUpdate\<close>

text \<open>
  The map \<^verbatim>\<open>vcsForStorageClasses\<close>: for every volume on a pool of the old backend, the pool's
  name is appended to the list of the volume's storage class.
\<close>

definition addVcForStorageClass :: "string \<Rightarrow> string \<Rightarrow> (string \<times> string list) list
    \<Rightarrow> (string \<times> string list) list" where
  "addVcForStorageClass scName vcName m =
     AList.update scName ((case map_of m scName of None \<Rightarrow> [] | Some l \<Rightarrow> l) @ [vcName]) m"

definition vcsForStorageClasses :: "tridentOrchestrator \<Rightarrow> bref \<Rightarrow> (string \<times> string list) list" where
  "vcsForStorageClasses st oldBackend =
     fold (\<lambda>(vcName, vc) m.
             fold (\<lambda>(volName, volume) m.
                     addVcForStorageClass (cfg_StorageClass (vol_Config (volumeObjs st volume))) vcName m)
               (pool_Volumes (poolObjs st vc)) m)
       (be_Storage (backendObjs st oldBackend)) []"

text \<open>
  The last loop of \<^verbatim>\<open>validateBackendUpdate\<close>. \<^verbatim>\<open>o.storageClasses[scName]\<close> is nil for a class
  that is no longer registered (\<^verbatim>\<open>DeleteStorageClass\<close> leaves volumes that name it), and
  \<^verbatim>\<open>sc.Matches\<close> is then a call on a nil class; it is evaluated only for a pool that the new
  backend has.
\<close>

fun checkPoolsOfClass :: "tridentOrchestrator \<Rightarrow> StorageClass option \<Rightarrow> string \<Rightarrow> bref
    \<Rightarrow> string list \<Rightarrow> string list \<Rightarrow> string list res" where
  "checkPoolsOfClass st sc scName newBackend [] errorList = Return errorList"
| "checkPoolsOfClass st sc scName newBackend (vcName # vcList) errorList =
     (case map_of (be_Storage (backendObjs st newBackend)) vcName of
        None \<Rightarrow> checkPoolsOfClass st sc scName newBackend vcList errorList
      | Some newVC \<Rightarrow>
          (case sc of
             None \<Rightarrow> Panic
           | Some c \<Rightarrow>
               if \<not> Matches c (poolObjs st newVC) then
                 checkPoolsOfClass st sc scName newBackend vcList
                   (errorList @ [''Storage pool '' @ vcName @ '' has volumes with storage class ''
                      @ scName @ '', but it no longer satisfies that storage class''])
               else checkPoolsOfClass st sc scName newBackend vcList errorList))"

fun checkStorageClasses :: "tridentOrchestrator \<Rightarrow> bref \<Rightarrow> (string \<times> string list) list
    \<Rightarrow> string list \<Rightarrow> string list res" where
  "checkStorageClasses st newBackend [] errorList = Return errorList"
| "checkStorageClasses st newBackend ((scName, vcList) # rest) errorList =
     (case checkPoolsOfClass st (map_of (storageClasses st) scName) scName newBackend vcList
             errorList of
        Panic \<Rightarrow> Panic
      | Return errorList' \<Rightarrow> checkStorageClasses st newBackend rest errorList')"

definition validateBackendUpdate :: "tridentOrchestrator \<Rightarrow> bref \<Rightarrow> bref \<Rightarrow> error option res" where
  "validateBackendUpdate st oldBackend newBackend =
     (let errorList1 =
            (if be_Protocol (backendObjs st oldBackend) \<noteq> be_Protocol (backendObjs st newBackend)
             then [''Cannot change backend protocol''] else []);
          usedPools = map fst (filter (\<lambda>(name, vc). length (pool_Volumes (poolObjs st vc)) > 0)
                        (be_Storage (backendObjs st oldBackend)));
          errorList2 = errorList1 @
            map (\<lambda>vcName. ''In-use storage pool '' @ vcName @ '' not present in updated backend'')
              (filter (\<lambda>vcName. map_of (be_Storage (backendObjs st newBackend)) vcName = None)
                 usedPools)
      in case checkStorageClasses st newBackend (vcsForStorageClasses st oldBackend) errorList2 of
           Panic \<Rightarrow> Panic
         | Return errorList \<Rightarrow>
             Return (if length errorList > 0 then
                       Some (Errorf (''Cannot update backend:'' @ [CHR 0x0A, CHR 0x09]
                         @ Join errorList [CHR 0x0A, CHR 0x09]))
                     else None))"

text \<open>
  For the statements about updates: the new backend changes the protocol of the old one,
  or lacks a pool of the old one that holds at least one volume.
\<close>

definition invalidUpdate :: "tridentOrchestrator \<Rightarrow> bref \<Rightarrow> bref \<Rightarrow> bool" where
  "invalidUpdate st ob nb \<longleftrightarrow>
     be_Protocol (backendObjs st ob) \<noteq> be_Protocol (backendObjs st nb)
     \<or> (\<exists>(name, vc) \<in> set (be_Storage (backendObjs st ob)).
           pool_Volumes (poolObjs st vc) \<noteq> []
           \<and> map_of (be_Storage (backendObjs st nb)) name = None)"

subsection \<open>AddStorageBackend\<close>

text \<open>
  Modelled from the spec: \<^verbatim>\<open>factory.NewStorageBackendForConfig\<close> is outside this file. It
  fails, or it builds a fresh backend object, online, with one fresh, empty pool object
  per pool of the configuration. The configuration stands for the parsed JSON text; the
  pool names are the keys of a map.
\<close>

definition emptyPool :: "bref \<Rightarrow> string \<times> Attributes \<Rightarrow> StoragePool" where
  "emptyPool b p = \<lparr>pool_Name = fst p, pool_Backend = b, pool_Attributes = snd p,
     pool_StorageClasses = [], pool_Volumes = []\<rparr>"

definition buildBackend :: "BackendConfig \<Rightarrow> tridentOrchestrator \<Rightarrow> tridentOrchestrator" where
  "buildBackend config st =
     (let b = nextRef st;
          n = length (bc_Pools config);
          refs = [Suc b ..< Suc b + n]
      in st\<lparr>nextRef := Suc b + n,
            backendObjs := (backendObjs st)(b :=
              \<lparr>be_Name = bc_Name config, be_Online = True,
               be_Protocol = bc_Protocol config, be_DriverName = bc_DriverName config,
               be_StoragePrefix = bc_StoragePrefix config,
               be_Storage = zip (map fst (bc_Pools config)) refs\<rparr>),
            poolObjs := (\<lambda>p. if Suc b \<le> p \<and> p < Suc b + n
                               then emptyPool b (bc_Pools config ! (p - Suc b))
                               else poolObjs st p)\<rparr>)"

definition NewStorageBackendForConfig :: "environment \<Rightarrow> BackendConfig \<Rightarrow> tridentOrchestrator
    \<Rightarrow> error + (bref \<times> tridentOrchestrator)" where
  "NewStorageBackendForConfig env config st =
     (case f_NewStorageBackendForConfig env config of
        Some err \<Rightarrow> Inl err
      | None \<Rightarrow> Inr (nextRef st, buildBackend config st))"

definition updateBackendOnPersistentStore :: "environment \<Rightarrow> bref \<Rightarrow> bool \<Rightarrow> tridentOrchestrator
    \<Rightarrow> error option \<times> tridentOrchestrator" where
  "updateBackendOnPersistentStore env backend newBackend st =
     (if bootstrapped st then
        (if newBackend then store_AddBackend env backend st
         else store_UpdateBackend env backend st)
      else (None, st))"

text \<open>The loop of \<^verbatim>\<open>AddStorageBackend\<close> over the storage classes.\<close>

fun updateStorageClasses :: "bool \<Rightarrow> bref option \<Rightarrow> bref \<Rightarrow> (string \<times> StorageClass) list
    \<Rightarrow> tridentOrchestrator \<Rightarrow> (string \<times> StorageClass) list \<times> string list \<times> tridentOrchestrator" where
  "updateStorageClasses newBackend originalBackend storageBackend [] st = ([], [], st)"
| "updateStorageClasses newBackend originalBackend storageBackend ((n, storageClass) # rest) st =
     (let sc1 = (case originalBackend of
                   Some ob \<Rightarrow> if \<not> newBackend then RemovePoolsForBackend storageClass ob st
                              else storageClass
                 | None \<Rightarrow> storageClass);
          (added, sc2, st1) = CheckAndAddBackend sc1 storageBackend st;
          (rest', classes, st2) =
             updateStorageClasses newBackend originalBackend storageBackend rest st1
      in ((n, sc2) # rest', (if added > 0 then [sc_Name sc2] else []) @ classes, st2))"

text \<open>
  The last loop of \<^verbatim>\<open>AddStorageBackend\<close>: every volume of the original backend is rebound to
  the new backend and to its pool of the same name, and entered in that pool's volume
  map. On a pool name that the new backend lacks, \<^verbatim>\<open>storageBackend.Storage[vcName]\<close> is nil
  and the assignment into its volume map panics.
\<close>

fun rebindVolumes :: "bref \<Rightarrow> string \<Rightarrow> (string \<times> vref) list \<Rightarrow> tridentOrchestrator
    \<Rightarrow> tridentOrchestrator res" where
  "rebindVolumes storageBackend vcName [] st = Return st"
| "rebindVolumes storageBackend vcName ((volName, vol) # rest) st =
     (case map_of (be_Storage (backendObjs st storageBackend)) vcName of
        None \<Rightarrow> Panic
      | Some newPool \<Rightarrow>
          rebindVolumes storageBackend vcName rest
            (st\<lparr>volumeObjs := (volumeObjs st)(vol :=
                   (volumeObjs st vol)\<lparr>vol_Backend := storageBackend, vol_Pool := newPool\<rparr>),
                poolObjs := (poolObjs st)(newPool :=
                   (poolObjs st newPool)\<lparr>pool_Volumes :=
                      AList.update volName vol (pool_Volumes (poolObjs st newPool))\<rparr>)\<rparr>))"

fun rebindPools :: "bref \<Rightarrow> (string \<times> pref) list \<Rightarrow> tridentOrchestrator
    \<Rightarrow> tridentOrchestrator res" where
  "rebindPools storageBackend [] st = Return st"
| "rebindPools storageBackend ((vcName, vc) # rest) st =
     (case rebindVolumes storageBackend vcName (pool_Volumes (poolObjs st vc)) st of
        Panic \<Rightarrow> Panic
      | Return st1 \<Rightarrow> rebindPools storageBackend rest st1)"

text \<open>
  For the statements about \<^verbatim>\<open>AddStorageBackend\<close>. References are handed out in increasing
  order, so a backend object and its pools that exist lie below \<open>nextRef\<close>; the volumes on
  a backend name registered storage classes unless a class was deleted under them; and
  the condition of an invalid update, on the configuration.
\<close>

definition allocated :: "tridentOrchestrator \<Rightarrow> bref \<Rightarrow> bool" where
  "allocated st b \<longleftrightarrow>
     b < nextRef st \<and> (\<forall>(n, p) \<in> set (be_Storage (backendObjs st b)). p < nextRef st)"

definition classesRegistered :: "tridentOrchestrator \<Rightarrow> bref \<Rightarrow> bool" where
  "classesRegistered st ob \<longleftrightarrow>
     (\<forall>(vcName, vc) \<in> set (be_Storage (backendObjs st ob)).
        \<forall>(volName, v) \<in> set (pool_Volumes (poolObjs st vc)).
          map_of (storageClasses st) (cfg_StorageClass (vol_Config (volumeObjs st v))) \<noteq> None)"

definition configInvalidates :: "tridentOrchestrator \<Rightarrow> bref \<Rightarrow> BackendConfig \<Rightarrow> bool" where
  "configInvalidates st ob config \<longleftrightarrow>
     be_Protocol (backendObjs st ob) \<noteq> bc_Protocol config
     \<or> (\<exists>(name, vc) \<in> set (be_Storage (backendObjs st ob)).
           pool_Volumes (poolObjs st vc) \<noteq> [] \<and> name \<notin> fst ` set (bc_Pools config))"

text \<open>
  A volume object is rebound to a backend object under a pool name and a volume name: its
  backend reference is that object, its pool reference is the object's pool of that name,
  and the pool's volume map holds the volume under the volume name.
\<close>

definition rebound :: "tridentOrchestrator \<Rightarrow> bref \<Rightarrow> string \<Rightarrow> string \<Rightarrow> vref \<Rightarrow> bool" where
  "rebound st nb vcName volName vol \<longleftrightarrow>
     vol_Backend (volumeObjs st vol) = nb
     \<and> (case map_of (be_Storage (backendObjs st nb)) vcName of
          None \<Rightarrow> False
        | Some np \<Rightarrow> vol_Pool (volumeObjs st vol) = np
                     \<and> map_of (pool_Volumes (poolObjs st np)) volName = Some vol)"

text \<open>
  The maps of a backend object are Go maps, and a volume object sits in one pool: the pool
  names of the backend are distinct, the volume names within a pool are distinct, and no
  volume object is entered twice in the pools of the backend.
\<close>

definition wellFormedBackend :: "tridentOrchestrator \<Rightarrow> bref \<Rightarrow> bool" where
  "wellFormedBackend st b \<longleftrightarrow>
     distinct (map fst (be_Storage (backendObjs st b)))
     \<and> (\<forall>(vcName, vc) \<in> set (be_Storage (backendObjs st b)).
          distinct (map fst (pool_Volumes (poolObjs st vc))))
     \<and> distinct (concat (map (\<lambda>(vcName, vc). map snd (pool_Volumes (poolObjs st vc)))
          (be_Storage (backendObjs st b))))"

text \<open>
  \<^verbatim>\<open>AddStorageBackend\<close>. When it returns an error before the new backend is entered in
  \<^verbatim>\<open>o.backends\<close>, the backend object that the factory built is unreachable, and the state
  returned is the state before the call.
\<close>

definition AddStorageBackend :: "environment \<Rightarrow> BackendConfig \<Rightarrow> tridentOrchestrator
    \<Rightarrow> ((BackendPersistent option \<times> error option) \<times> tridentOrchestrator) res" where
  "AddStorageBackend env configJSON st =
     (case NewStorageBackendForConfig env configJSON st of
        Inl err \<Rightarrow> Return ((None, Some err), st)
      | Inr (storageBackend, st1) \<Rightarrow>
          (let originalBackend = map_of (backends st1) (be_Name (backendObjs st1 storageBackend));
               newBackend = (originalBackend = None)
           in case (case originalBackend of
                      None \<Rightarrow> Return None
                    | Some ob \<Rightarrow> validateBackendUpdate st1 ob storageBackend) of
                Panic \<Rightarrow> Panic
              | Return (Some err) \<Rightarrow> Return ((None, Some err), st)
              | Return None \<Rightarrow>
                  (case updateBackendOnPersistentStore env storageBackend newBackend st1 of
                     (Some err, st2) \<Rightarrow> Return ((None, Some err), st)
                   | (None, st2) \<Rightarrow>
                       (let st3 = st2\<lparr>backends := AList.update
                                     (be_Name (backendObjs st2 storageBackend)) storageBackend
                                     (backends st2)\<rparr>;
                            (scs, classes, st4) =
                               updateStorageClasses newBackend originalBackend storageBackend
                                 (storageClasses st3) st3;
                            st5 = st4\<lparr>storageClasses := scs\<rparr>
                        in case (case originalBackend of
                                   None \<Rightarrow> Return st5
                                 | Some ob \<Rightarrow>
                                     rebindPools storageBackend
                                       (be_Storage (backendObjs st5 ob)) st5) of
                             Panic \<Rightarrow> Panic
                           | Return st6 \<Rightarrow>
                               Return ((Some (ConstructExternalBackend st6 storageBackend), None),
                                       st6)))))"

subsection \<open>Bootstrap\<close>

text \<open>
  Modelled from the spec: the reading calls of the store client are outside this file. A
  call fails as the environment says or returns the records of its namespace.
  \<^verbatim>\<open>GetBackends\<close> is asked once and then once per retry; its outcome is a function of the
  number of the call.
\<close>

definition store_GetBackends :: "environment \<Rightarrow> tridentOrchestrator \<Rightarrow> nat
    \<Rightarrow> error + BackendPersistent list" where
  "store_GetBackends env st attempt =
     (case f_GetBackends env attempt of
        Some err \<Rightarrow> Inl err
      | None \<Rightarrow> Inr (map snd (ps_backends (storeClient st))))"

text \<open>
  The retry loop of \<^verbatim>\<open>bootstrapBackends\<close>: \<^verbatim>\<open>tries\<close> counts the retries, each after a sleep of
  one second; the loop ends when the last answer is not \<^verbatim>\<open>DeadlineExceeded\<close> or after
  \<^verbatim>\<open>MaxBootstrapAttempts\<close> retries.
\<close>

function retryGetBackends :: "environment \<Rightarrow> nat \<Rightarrow> error + BackendPersistent list
    \<Rightarrow> tridentOrchestrator \<Rightarrow> nat \<times> (error + BackendPersistent list) \<times> tridentOrchestrator" where
  "retryGetBackends env tries r st =
     (if r = Inl DeadlineExceeded \<and> tries < MaxBootstrapAttempts env then
        retryGetBackends env (Suc tries)
          (store_GetBackends env (st\<lparr>slept := slept st + 1\<rparr>) (Suc tries))
          (st\<lparr>slept := slept st + 1\<rparr>)
      else (tries, r, st))"
  by pat_completeness auto
termination
  by (relation "measure (\<lambda>(env, tries, r, st). MaxBootstrapAttempts env - tries)") auto

text \<open>
  The second loop of \<^verbatim>\<open>bootstrapBackends\<close>. \<^verbatim>\<open>o.backends[b.Name]\<close> is nil if the backend was
  registered under another name than the persisted record's.
\<close>

fun addPersistentBackends :: "environment \<Rightarrow> BackendPersistent list \<Rightarrow> tridentOrchestrator
    \<Rightarrow> (error option \<times> tridentOrchestrator) res" where
  "addPersistentBackends env [] st = Return (None, st)"
| "addPersistentBackends env (b # bs) st =
     (case f_MarshalConfig env (pb_Name b) of
        Some err \<Rightarrow> Return (Some err, st)
      | None \<Rightarrow>
          (case AddStorageBackend env (pb_Config b) st of
             Panic \<Rightarrow> Panic
           | Return ((ext, Some err), st1) \<Rightarrow> Return (Some err, st1)
           | Return ((ext, None), st1) \<Rightarrow>
               (case map_of (backends st1) (pb_Name b) of
                  None \<Rightarrow> Panic
                | Some newBackend \<Rightarrow>
                    addPersistentBackends env bs
                      (st1\<lparr>backendObjs := (backendObjs st1)(newBackend :=
                         (backendObjs st1 newBackend)\<lparr>be_Online := pb_Online b\<rparr>)\<rparr>))))"

definition bootstrapBackends :: "environment \<Rightarrow> tridentOrchestrator
    \<Rightarrow> (error option \<times> tridentOrchestrator) res" where
  "bootstrapBackends env st =
     (case retryGetBackends env 0 (store_GetBackends env st 0) st of
        (tries, Inl err, st1) \<Rightarrow> Return (Some err, st1)
      | (tries, Inr persistentBackends, st1) \<Rightarrow> addPersistentBackends env persistentBackends st1)"

text \<open>
  \<^verbatim>\<open>bootstrapStorageClasses\<close>: every persisted class is registered with no pools and then
  checked against every backend.
\<close>

fun checkAndAddBackends :: "StorageClass \<Rightarrow> (string \<times> bref) list \<Rightarrow> tridentOrchestrator
    \<Rightarrow> StorageClass \<times> tridentOrchestrator" where
  "checkAndAddBackends sc [] st = (sc, st)"
| "checkAndAddBackends sc ((n, b) # rest) st =
     (case CheckAndAddBackend sc b st of (added, sc1, st1) \<Rightarrow> checkAndAddBackends sc1 rest st1)"

fun addPersistentStorageClasses :: "StorageClass list \<Rightarrow> tridentOrchestrator \<Rightarrow> tridentOrchestrator" where
  "addPersistentStorageClasses [] st = st"
| "addPersistentStorageClasses (psc # rest) st =
     (case checkAndAddBackends (psc\<lparr>sc_Pools := []\<rparr>) (backends st) st of
        (sc, st1) \<Rightarrow>
          addPersistentStorageClasses rest
            (st1\<lparr>storageClasses := AList.update (sc_Name sc) sc (storageClasses st1)\<rparr>))"

definition bootstrapStorageClasses :: "environment \<Rightarrow> tridentOrchestrator
    \<Rightarrow> (error option \<times> tridentOrchestrator) res" where
  "bootstrapStorageClasses env st =
     (case f_GetStorageClasses env of
        Some err \<Rightarrow> Return (Some err, st)
      | None \<Rightarrow>
          Return (None, addPersistentStorageClasses
                          (map snd (ps_storageClasses (storeClient st))) st))"

fun addPersistentVolumes :: "VolumeExternal list \<Rightarrow> tridentOrchestrator
    \<Rightarrow> error option \<times> tridentOrchestrator" where
  "addPersistentVolumes [] st = (None, st)"
| "addPersistentVolumes (v # rest) st =
     (case map_of (backends st) (vx_Backend v) of
        None \<Rightarrow>
          (Some (Errorf (''Couldn't find backend '' @ vx_Backend v @ '' for volume ''
             @ cfg_Name (vx_Config v) @ ''!'')), st)
      | Some backend \<Rightarrow>
          (case map_of (be_Storage (backendObjs st backend)) (vx_Pool v) of
             None \<Rightarrow>
               (Some (Errorf (''Couldn't find storage pool '' @ vx_Pool v @ '' on backend ''
                  @ vx_Backend v @ ''!'')), st)
           | Some vc \<Rightarrow>
               (case NewVolume (vx_Config v) backend vc st of
                  (vol, st1) \<Rightarrow>
                    (let st2 = pool_AddVolume vc vol st1 in
                     addPersistentVolumes rest
                       (st2\<lparr>volumes := AList.update (cfg_Name (vx_Config v)) vol
                                           (volumes st2)\<rparr>)))))"

definition bootstrapVolumes :: "environment \<Rightarrow> tridentOrchestrator
    \<Rightarrow> (error option \<times> tridentOrchestrator) res" where
  "bootstrapVolumes env st =
     (case f_GetVolumes env of
        Some err \<Rightarrow> Return (Some err, st)
      | None \<Rightarrow> Return (addPersistentVolumes (map snd (ps_volumes (storeClient st))) st))"

text \<open>
  \<^verbatim>\<open>bootstrapVolTxns\<close>: an error of \<^verbatim>\<open>GetVolumeTransactions\<close> is only logged, and the loop then
  runs over the (empty) list the failed call returned.
\<close>

fun rollBackTransactions :: "environment \<Rightarrow> VolumeTransaction list \<Rightarrow> tridentOrchestrator
    \<Rightarrow> (error option \<times> tridentOrchestrator) res" where
  "rollBackTransactions env [] st = Return (None, st)"
| "rollBackTransactions env (v # rest) st =
     (case rollBackTransaction env v st of
        Panic \<Rightarrow> Panic
      | Return (Some err, st1) \<Rightarrow> Return (Some err, st1)
      | Return (None, st1) \<Rightarrow> rollBackTransactions env rest st1)"

definition bootstrapVolTxns :: "environment \<Rightarrow> tridentOrchestrator
    \<Rightarrow> (error option \<times> tridentOrchestrator) res" where
  "bootstrapVolTxns env st =
     (let volTxns = (case f_GetVolumeTransactions env of
                       Some err \<Rightarrow> []
                     | None \<Rightarrow> map snd (ps_transactions (storeClient st)))
      in rollBackTransactions env volTxns st)"

text \<open>
  The loop of \<^verbatim>\<open>bootstrap\<close> over the steps. A step's error whose message is \<open>KeyErrorMsg\<close> is
  asserted to be a \<open>KeyError\<close> (the assertion panics on an error of another type), logged,
  and the loop goes on; any other error is returned.
\<close>

fun bootstrapSteps :: "(tridentOrchestrator \<Rightarrow> (error option \<times> tridentOrchestrator) res) list
    \<Rightarrow> tridentOrchestrator \<Rightarrow> (error option \<times> tridentOrchestrator) res" where
  "bootstrapSteps [] st = Return (None, st)"
| "bootstrapSteps (f # fs) st =
     (case f st of
        Panic \<Rightarrow> Panic
      | Return (None, st1) \<Rightarrow> bootstrapSteps fs st1
      | Return (Some err, st1) \<Rightarrow>
          if Error err = KeyErrorMsg then
            (case err of
               KeyError key \<Rightarrow> bootstrapSteps fs st1
             | _ \<Rightarrow> Panic)
          else Return (Some err, st1))"

text \<open>The last loop of \<^verbatim>\<open>bootstrap\<close>: offline backends without volumes are dropped.\<close>

fun cleanUpBackends :: "environment \<Rightarrow> (string \<times> bref) list \<Rightarrow> tridentOrchestrator
    \<Rightarrow> error option \<times> tridentOrchestrator" where
  "cleanUpBackends env [] st = (None, st)"
| "cleanUpBackends env ((backendName, backend) # rest) st =
     (if \<not> be_Online (backendObjs st backend) \<and> \<not> HasVolumes st backend then
        (case store_DeleteBackend env backend
                (st\<lparr>backends := AList.delete backendName (backends st)\<rparr>) of
           (Some err, st1) \<Rightarrow>
             (Some (Errorf (''Failed to delete empty offline backend '' @ backendName @ '':''
                @ Error err)), st1)
         | (None, st1) \<Rightarrow> cleanUpBackends env rest st1)
      else cleanUpBackends env rest st)"

definition bootstrap :: "environment \<Rightarrow> tridentOrchestrator
    \<Rightarrow> (error option \<times> tridentOrchestrator) res" where
  "bootstrap env st =
     (case bootstrapSteps [bootstrapBackends env, bootstrapStorageClasses env,
                           bootstrapVolumes env, bootstrapVolTxns env] st of
        Panic \<Rightarrow> Panic
      | Return (Some err, st1) \<Rightarrow> Return (Some err, st1)
      | Return (None, st1) \<Rightarrow> Return (cleanUpBackends env (backends st1) st1))"

text \<open>
  \<^verbatim>\<open>Bootstrap\<close> passes the message it has formatted to \<^verbatim>\<open>fmt.Errorf\<close> as the format string,
  so a \<open>%\<close> in the error of \<^verbatim>\<open>bootstrap\<close> is read as a verb again; without one the message
  is the error's text.
\<close>

definition Bootstrap :: "environment \<Rightarrow> tridentOrchestrator
    \<Rightarrow> (error option \<times> tridentOrchestrator) res" where
  "Bootstrap env st =
     (case bootstrap env st of
        Panic \<Rightarrow> Panic
      | Return (Some err, st1) \<Rightarrow>
          (let errMsg = ''Could not bootstrap from persistent store! Bootstrap might ''
                 @ ''have failed, persistent store might be down, or persistent store may not have ''
                 @ ''any backend, volume, or storage class state: '' @ Error err
           in Return (Some (Errorf (if CHR ''%'' \<in> set errMsg then f_Errorf env errMsg
                                    else errMsg)), st1))
      | Return (None, st1) \<Rightarrow> Return (None, st1\<lparr>bootstrapped := True\<rparr>))"

text \<open>The orchestrator that \<^verbatim>\<open>NewTridentOrchestrator\<close> returns for a store.\<close>

definition NewTridentOrchestrator :: "store \<Rightarrow> tridentOrchestrator" where
  "NewTridentOrchestrator client =
     \<lparr>backends = [], volumes = [], storageClasses = [], bootstrapped = False,
      backendObjs = (\<lambda>_. \<lparr>be_Name = [], be_Online = False, be_Protocol = ProtocolAny,
         be_DriverName = [], be_StoragePrefix = [], be_Storage = []\<rparr>),
      poolObjs = (\<lambda>_. \<lparr>pool_Name = [], pool_Backend = 0, pool_Attributes = [],
         pool_StorageClasses = [], pool_Volumes = []\<rparr>),
      volumeObjs = (\<lambda>_. \<lparr>vol_Config = \<lparr>cfg_Name = [], cfg_Size = [], cfg_StorageClass = [],
         cfg_Protocol = ProtocolAny, cfg_AccessMode = ReadWriteOnce, cfg_Version = []\<rparr>,
         vol_Backend = 0, vol_Pool = 0\<rparr>),
      nextRef = 0, storeClient = client, destroyed = [], slept = 0\<rparr>"

subsection \<open>OfflineBackend\<close>




subsection \<open>Example states\<close>

text \<open>An environment in which nothing fails, and the identity permutation.\<close>

definition no_faults :: environment where
  "no_faults = \<lparr>MaxBootstrapAttempts = 10, OrchestratorMajorVersion = ''1'',
     BackendURL = ''http://localhost/backend'', f_GetBackends = (\<lambda>_. None),
     f_GetStorageClasses = None, f_GetVolumes = None, f_GetVolumeTransactions = None,
     f_AddBackend = (\<lambda>_. None), f_UpdateBackend = (\<lambda>_. None), f_DeleteBackend = (\<lambda>_. None),
     f_AddStorageClass = (\<lambda>_. None), f_DeleteStorageClass = (\<lambda>_. None),
     f_AddVolume = (\<lambda>_. None), f_DeleteVolumeIgnoreNotFound = (\<lambda>_. None),
     f_GetExistingVolumeTransaction = (\<lambda>_. None), f_AddVolumeTransaction = (\<lambda>_ _. None),
     f_DeleteVolumeTransaction = (\<lambda>_ _ _. None), f_Destroy = (\<lambda>_ _. None),
     f_Create = (\<lambda>_ _ _. Created), f_MarshalConfig = (\<lambda>_. None),
     f_NewStorageBackendForConfig = (\<lambda>_. None), perm = (\<lambda>n. [0..<n]),
     f_Errorf = (\<lambda>s. s)\<rparr>"

text \<open>One backend \<open>b1\<close> (object 0) with one pool \<open>p1\<close> (object 1) holding the volume \<open>v1\<close> (object 2).\<close>

definition ex_cfg :: VolumeConfig where
  "ex_cfg = \<lparr>cfg_Name = ''v1'', cfg_Size = ''1Gi'', cfg_StorageClass = ''gold'',
     cfg_Protocol = File, cfg_AccessMode = ReadWriteOnce, cfg_Version = ''1''\<rparr>"

definition ex_backend :: "bool \<Rightarrow> StorageBackend" where
  "ex_backend online = \<lparr>be_Name = ''b1'', be_Online = online, be_Protocol = File,
     be_DriverName = ''ontap-nas'', be_StoragePrefix = ''trident_'', be_Storage = [(''p1'', 1)]\<rparr>"

definition ex_pool :: StoragePool where
  "ex_pool = \<lparr>pool_Name = ''p1'', pool_Backend = 0, pool_Attributes = [],
     pool_StorageClasses = [], pool_Volumes = [(''v1'', 2)]\<rparr>"

definition ex_volume :: Volume where
  "ex_volume = \<lparr>vol_Config = ex_cfg, vol_Backend = 0, vol_Pool = 1\<rparr>"

definition ex_store :: "bool \<Rightarrow> store" where
  "ex_store online = \<lparr>ps_backends = [(''b1'', \<lparr>pb_Name = ''b1'', pb_Online = online,
        pb_Config = \<lparr>bc_Name = ''b1'', bc_Protocol = File, bc_DriverName = ''ontap-nas'',
          bc_StoragePrefix = ''trident_'', bc_Pools = [(''p1'', [])]\<rparr>\<rparr>)],
     ps_storageClasses = [],
     ps_volumes = [(''v1'', \<lparr>vx_Config = ex_cfg, vx_Backend = ''b1'', vx_Pool = ''p1''\<rparr>)],
     ps_transactions = []\<rparr>"

definition ex_state :: "bool \<Rightarrow> tridentOrchestrator" where
  "ex_state online = \<lparr>backends = [(''b1'', 0)], volumes = [(''v1'', 2)], storageClasses = [],
     bootstrapped = True, backendObjs = (\<lambda>_. ex_backend online), poolObjs = (\<lambda>_. ex_pool),
     volumeObjs = (\<lambda>_. ex_volume), nextRef = 3, storeClient = ex_store online,
     destroyed = [], slept = 0\<rparr>"

text \<open>
  Two backends: \<open>b1\<close> as before and online, and the backend \<open>b2\<close> (object 3) with
  pool \<open>p2\<close> (object 4) holding the volume \<open>v3\<close> (object 5). The store holds a stale
  \<^verbatim>\<open>AddVolume\<close> transaction for \<open>v2\<close>.
\<close>

definition ex_txn :: VolumeTransaction where
  "ex_txn = \<lparr>txn_Config = ex_cfg\<lparr>cfg_Name := ''v2''\<rparr>, txn_Op = AddVolumeOp\<rparr>"

definition ex_state2 :: "bool \<Rightarrow> tridentOrchestrator" where
  "ex_state2 online2 = \<lparr>backends = [(''b1'', 0), (''b2'', 3)], volumes = [(''v1'', 2), (''v3'', 5)],
     storageClasses = [], bootstrapped = True,
     backendObjs = (\<lambda>_. ex_backend True)(3 := \<lparr>be_Name = ''b2'', be_Online = online2,
       be_Protocol = Block, be_DriverName = ''solidfire-san'', be_StoragePrefix = ''sf_'',
       be_Storage = [(''p2'', 4)]\<rparr>),
     poolObjs = (\<lambda>_. ex_pool)(4 := \<lparr>pool_Name = ''p2'', pool_Backend = 3, pool_Attributes = [],
       pool_StorageClasses = [], pool_Volumes = [(''v3'', 5)]\<rparr>),
     volumeObjs = (\<lambda>_. ex_volume)(5 := \<lparr>vol_Config = ex_cfg\<lparr>cfg_Name := ''v3''\<rparr>,
       vol_Backend = 3, vol_Pool = 4\<rparr>),
     nextRef = 6,
     storeClient = (ex_store True)\<lparr>ps_transactions := [(''v2'', ex_txn)]\<rparr>,
     destroyed = [], slept = 0\<rparr>"

text \<open>
  The same two backends, both online, with the storage class \<open>gold\<close> that both pools
  satisfy: \<open>p1\<close> is on the file backend \<open>b1\<close>, \<open>p2\<close> on the block backend \<open>b2\<close>.
\<close>

definition ex_gold :: StorageClass where
  "ex_gold = \<lparr>sc_Name = ''gold'', sc_Required = [], sc_Pools = [1, 4]\<rparr>"

definition ex_state3 :: tridentOrchestrator where
  "ex_state3 = (ex_state2 True)\<lparr>storageClasses := [(''gold'', ex_gold)],
     storeClient := ex_store True\<rparr>"

text \<open>A request for a volume \<open>v2\<close> of class \<open>gold\<close> with any protocol, to be shared read-write.\<close>

definition ex_request :: VolumeConfig where
  "ex_request = \<lparr>cfg_Name = ''v2'', cfg_Size = ''1Gi'', cfg_StorageClass = ''gold'',
     cfg_Protocol = ProtocolAny, cfg_AccessMode = ReadWriteMany, cfg_Version = ''''\<rparr>"

text \<open>A new configuration for \<open>b1\<close> that keeps the pool \<open>p1\<close> and changes the protocol.\<close>

definition ex_update :: BackendConfig where
  "ex_update = \<lparr>bc_Name = ''b1'', bc_Protocol = Block, bc_DriverName = ''ontap-san'',
     bc_StoragePrefix = ''trident_'', bc_Pools = [(''p1'', [])]\<rparr>"

text \<open>A new configuration for \<open>b1\<close> that keeps the protocol and the pool \<open>p1\<close> and adds a pool.\<close>

definition ex_update_ok :: BackendConfig where
  "ex_update_ok = \<lparr>bc_Name = ''b1'', bc_Protocol = File, bc_DriverName = ''ontap-nas'',
     bc_StoragePrefix = ''trident_'', bc_Pools = [(''p0'', []), (''p1'', [])]\<rparr>"

text \<open>An empty store.\<close>

definition ex_empty :: store where
  "ex_empty = \<lparr>ps_backends = [], ps_storageClasses = [], ps_volumes = [], ps_transactions = []\<rparr>"




section \<open>Properties\<close>

lemmas store_defs = failing_def with_store_def store_AddBackend_def store_UpdateBackend_def
  store_DeleteBackend_def store_AddVolume_def store_DeleteVolumeIgnoreNotFound_def
  store_AddVolumeTransaction_def store_DeleteVolumeTransaction_def

lemmas ex_defs = no_faults_def ex_cfg_def ex_backend_def ex_pool_def ex_volume_def
  ex_store_def ex_state_def ex_txn_def ex_state2_def ex_gold_def ex_state3_def ex_request_def ex_update_def ex_update_ok_def ex_empty_def

subsection \<open>DeleteVolume\<close>

text \<open>
  Claim C8. \<^verbatim>\<open>DeleteVolume\<close> on the only volume of an offline backend, with every step of
  the deletion succeeding (the transaction is written, the driver destroys the volume,
  the store deletes the volume, the backend and the transaction): the call returns
  \<open>(true, nil)\<close>; afterwards the backend's name is neither in the in-memory registry nor
  in the store, and the volume is neither in the catalog nor in the store.
\<close>

theorem DeleteVolume_last_volume_offline:
  assumes "map_of (volumes st) volumeName = Some v"
    and "vol = volumeObjs st v" and "be = backendObjs st (vol_Backend vol)"
    and "\<not> be_Online be"
    and "\<forall>(n, p) \<in> set (be_Storage be).
           pool_Volumes (poolObjs st p) =
             (if p = vol_Pool vol then [(cfg_Name (vol_Config vol), v)] else [])"
    and "f_AddVolumeTransaction env (cfg_Name (vol_Config vol)) DeleteVolumeOp = None"
    and "f_Destroy env (be_Name be) (GetInternalVolumeName be (cfg_Name (vol_Config vol))) = None"
    and "f_DeleteVolumeIgnoreNotFound env (cfg_Name (vol_Config vol)) = None"
    and "f_DeleteBackend env (be_Name be) = None"
    and "f_DeleteVolumeTransaction env False (cfg_Name (vol_Config vol)) DeleteVolumeOp = None"
  shows "\<exists>st'. DeleteVolume env volumeName st = Return ((True, None), st')
           \<and> map_of (backends st') (be_Name be) = None
           \<and> map_of (ps_backends (storeClient st')) (be_Name be) = None
           \<and> map_of (volumes st') volumeName = None
           \<and> map_of (ps_volumes (storeClient st')) (cfg_Name (vol_Config vol)) = None"
  using assms
  by (auto simp add: DeleteVolume_def deleteVolume_def backend_RemoveVolume_def
      driver_Destroy_def HasVolumes_def store_defs Let_def update_conv' delete_conv'
      list_ex_iff split: if_splits)

theorem DeleteVolume_last_volume_offline_witness:
  "\<exists>st'. DeleteVolume no_faults ''v1'' (ex_state False) = Return ((True, None), st')
         \<and> map_of (backends st') ''b1'' = None
         \<and> map_of (ps_backends (storeClient st')) ''b1'' = None
         \<and> map_of (volumes st') ''v1'' = None
         \<and> map_of (ps_volumes (storeClient st')) ''v1'' = None"
  using DeleteVolume_last_volume_offline [where st = "ex_state False" and volumeName = "''v1''"
      and v = 2 and vol = ex_volume and be = "ex_backend False" and env = no_faults]
  by (simp add: ex_defs)



subsection \<open>rollBackTransaction\<close>


lemma destroyOnBackends_all_succeed:
  "\<forall>(n, b) \<in> set bs. be_Online (backendObjs st b) \<longrightarrow>
      f_Destroy env (be_Name (backendObjs st b)) (GetInternalVolumeName (backendObjs st b) name) = None \<Longrightarrow>
   destroyOnBackends env name bs st = (None, st\<lparr>destroyed := destroyed st @ destroyCalls st name bs\<rparr>)"
proof (induction bs arbitrary: st)
  case Nil
  then show ?case by (simp add: destroyCalls_def)
next
  case (Cons a bs)
  obtain bn b where a: "a = (bn, b)" by (cases a)
  let ?st1 = "st\<lparr>destroyed := destroyed st @ [(b, GetInternalVolumeName (backendObjs st b) name)]\<rparr>"
  have "destroyOnBackends env name bs ?st1 = (None, ?st1\<lparr>destroyed := destroyed ?st1 @ destroyCalls ?st1 name bs\<rparr>)"
    by (rule Cons.IH) (use Cons.prems in auto)
  moreover have "destroyOnBackends env name bs st = (None, st\<lparr>destroyed := destroyed st @ destroyCalls st name bs\<rparr>)"
    by (rule Cons.IH) (use Cons.prems in auto)
  ultimately show ?case using Cons.prems a
    by (simp add: driver_Destroy_def destroyCalls_def)
qed

lemma destroyOnBackends_calls:
  "destroyOnBackends env name bs st = (r, st') \<Longrightarrow>
     st' = st\<lparr>destroyed := destroyed st @
            take (Suc (length (takeWhile (\<lambda>nb. destroyResult env st name nb = None)
                                 (onlineBackends st bs))))
              (destroyCalls st name bs)\<rparr>"
proof (induction bs arbitrary: st)
  case Nil
  then show ?case by (simp add: destroyCalls_def onlineBackends_def)
next
  case (Cons a bs)
  obtain bn b0 where a: "a = (bn, b0)" by (cases a)
  let ?st1 = "st\<lparr>destroyed := destroyed st @ [(b0, GetInternalVolumeName (backendObjs st b0) name)]\<rparr>"
  have same: "onlineBackends ?st1 = onlineBackends st" "destroyResult env ?st1 = destroyResult env st"
    "destroyCalls ?st1 = destroyCalls st"
    by (simp_all add: onlineBackends_def destroyResult_def destroyCalls_def fun_eq_iff)
  show ?case
  proof (cases "be_Online (backendObjs st b0)")
    case False
    with Cons.prems a have "destroyOnBackends env name bs st = (r, st')" by simp
    from Cons.IH[OF this] False a show ?thesis
      by (simp add: destroyCalls_def onlineBackends_def)
  next
    case True
    show ?thesis
    proof (cases "destroyResult env st name (bn, b0)")
      case (Some e)
      with Cons.prems a True show ?thesis
        by (simp add: driver_Destroy_def destroyCalls_def onlineBackends_def destroyResult_def)
    next
      case None
      with Cons.prems a True have run: "destroyOnBackends env name bs ?st1 = (r, st')"
        by (simp add: driver_Destroy_def destroyResult_def)
      from Cons.IH[OF run] show ?thesis
        unfolding same using True a None by (simp add: destroyCalls_def onlineBackends_def)
    qed
  qed
qed

lemma destroyOnBackends_error:
  "destroyOnBackends env name bs st = (r, st') \<Longrightarrow>
     r = (case dropWhile (\<lambda>nb. destroyResult env st name nb = None) (onlineBackends st bs) of
            [] \<Rightarrow> None
          | (n, b) # others \<Rightarrow>
              map_option (\<lambda>err. Errorf (''Error attempting to clean up volume '' @ name
                    @ '' from backend '' @ be_Name (backendObjs st b) @ '':  '' @ Error err))
                (destroyResult env st name (n, b)))"
proof (induction bs arbitrary: st)
  case Nil
  then show ?case by (simp add: onlineBackends_def)
next
  case (Cons a bs)
  obtain bn b0 where a: "a = (bn, b0)" by (cases a)
  let ?st1 = "st\<lparr>destroyed := destroyed st @ [(b0, GetInternalVolumeName (backendObjs st b0) name)]\<rparr>"
  have same: "onlineBackends ?st1 = onlineBackends st" "destroyResult env ?st1 = destroyResult env st"
    "backendObjs ?st1 = backendObjs st"
    by (simp_all add: onlineBackends_def destroyResult_def fun_eq_iff)
  show ?case
  proof (cases "be_Online (backendObjs st b0)")
    case False
    with Cons.prems a have "destroyOnBackends env name bs st = (r, st')" by simp
    from Cons.IH[OF this] False a show ?thesis
      by (simp add: onlineBackends_def)
  next
    case True
    show ?thesis
    proof (cases "destroyResult env st name (bn, b0)")
      case (Some e)
      with Cons.prems a True show ?thesis
        by (simp add: driver_Destroy_def onlineBackends_def destroyResult_def)
    next
      case None
      with Cons.prems a True have run: "destroyOnBackends env name bs ?st1 = (r, st')"
        by (simp add: driver_Destroy_def destroyResult_def)
      from Cons.IH[OF run] show ?thesis
        unfolding same using True a None by (simp add: onlineBackends_def)
    qed
  qed
qed

text \<open>
  Claim C4, as amended. Rolling back an \<^verbatim>\<open>AddVolume\<close> transaction whose volume is not in the
  catalog never panics. With \<open>online\<close> the online backends in the order of the registry and
  \<open>ok\<close> the longest initial part of them on which \<^verbatim>\<open>Destroy\<close> succeeds, the \<^verbatim>\<open>Destroy\<close> calls
  of the rollback are exactly those on \<open>ok\<close> and on the backend that follows \<open>ok\<close>, if any,
  each with the backend's internal name of the volume: an offline backend is never called,
  and no backend after the first failing one. If there is a failing backend, the rollback
  returns the error that names it and carries the driver's error, and the store is left as
  it was. Otherwise every online backend has been called and the store is asked to delete
  the transaction: the rollback returns nil with the transaction gone when the store does
  so, and the store's error behind a prefix when it does not.
\<close>

theorem rollBackTransaction_AddVolume_absent:
  assumes "txn_Op t = AddVolumeOp" and "name = cfg_Name (txn_Config t)"
    and "map_of (volumes st) name = None"
    and "online = onlineBackends st (backends st)"
    and "ok = takeWhile (\<lambda>nb. destroyResult env st name nb = None) online"
  shows "\<exists>r st'. rollBackTransaction env t st = Return (r, st')
     \<and> destroyed st' = destroyed st @
           map (\<lambda>(n, b). (b, GetInternalVolumeName (backendObjs st b) name))
             (take (Suc (length ok)) online)
     \<and> (\<forall>n b. length ok < length online \<and> online ! length ok = (n, b) \<longrightarrow>
           (\<exists>err. f_Destroy env (be_Name (backendObjs st b))
                     (GetInternalVolumeName (backendObjs st b) name) = Some err
              \<and> r = Some (Errorf (''Error attempting to clean up volume '' @ name
                     @ '' from backend '' @ be_Name (backendObjs st b) @ '':  '' @ Error err)))
           \<and> storeClient st' = storeClient st)
     \<and> (ok = online \<longrightarrow>
           storeClient st' = storeClient (snd (store_DeleteVolumeTransaction env True t st))
           \<and> (case f_DeleteVolumeTransaction env True name AddVolumeOp of
                None \<Rightarrow> r = None \<and> map_of (ps_transactions (storeClient st')) name = None
              | Some e \<Rightarrow> r = Some (Errorf (''Failed to clean up volume addition transaction: ''
                            @ Error e))))"
proof -
  let ?P = "\<lambda>nb. destroyResult env st name nb = None"
  let ?calls = "map (\<lambda>(n, b). (b, GetInternalVolumeName (backendObjs st b) name))
                  (take (Suc (length ok)) online)"
  obtain r1 st1 where d: "destroyOnBackends env name (backends st) st = (r1, st1)"
    by (cases "destroyOnBackends env name (backends st) st")
  from destroyOnBackends_calls[OF d]
  have st1: "st1 = st\<lparr>destroyed := destroyed st @ ?calls\<rparr>"
    unfolding assms(4,5) destroyCalls_def onlineBackends_def take_map .
  note r1 = destroyOnBackends_error[OF d, folded assms(4)]
  show ?thesis
  proof (cases "ok = online")
    case True
    then have "takeWhile ?P online = online"
      unfolding assms(5) by simp
    then have "\<forall>x \<in> set online. ?P x"
      by (simp only: takeWhile_eq_all_conv)
    then have "dropWhile ?P online = []"
      by simp
    with r1 have none: "r1 = None" by simp
    from True have notlt: "\<not> length ok < length online" by simp
    show ?thesis
    proof (cases "f_DeleteVolumeTransaction env True name AddVolumeOp")
      case None
      with d none st1 assms(1-3) notlt show ?thesis
        by (simp add: rollBackTransaction_def store_defs delete_conv' Let_def)
    next
      case (Some e)
      with d none st1 assms(1-3) notlt show ?thesis
        by (simp add: rollBackTransaction_def store_defs Let_def)
    qed
  next
    case False
    have pre: "ok @ dropWhile ?P online = online"
      unfolding assms(5) by simp
    have "dropWhile ?P online \<noteq> []"
    proof
      assume "dropWhile ?P online = []"
      with pre have "ok = online" by simp
      with False show False ..
    qed
    then obtain y ys where dw: "dropWhile ?P online = y # ys"
      by (cases "dropWhile ?P online") simp_all
    have bad: "\<not> ?P y"
      using hd_dropWhile[of ?P online] dw by simp
    obtain n0 b0 where y: "y = (n0, b0)" by (cases y)
    have "(ok @ y # ys) ! length ok = y"
      by (rule nth_append_length)
    then have at: "online ! length ok = (n0, b0)"
      unfolding y dw[symmetric, unfolded y] pre .
    from bad obtain err where err: "f_Destroy env (be_Name (backendObjs st b0))
                     (GetInternalVolumeName (backendObjs st b0) name) = Some err"
      unfolding y destroyResult_def by auto
    with r1 dw y have r1': "r1 = Some (Errorf (''Error attempting to clean up volume '' @ name
                     @ '' from backend '' @ be_Name (backendObjs st b0) @ '':  '' @ Error err))"
      by (simp add: destroyResult_def)
    have run: "rollBackTransaction env t st = Return (r1, st1)"
      using d r1' assms(1-3) by (simp add: rollBackTransaction_def Let_def)
    show ?thesis
      unfolding run using False at err r1' st1 by auto
  qed
qed

theorem rollBackTransaction_AddVolume_absent_witness:
  "\<exists>st'. rollBackTransaction no_faults ex_txn (ex_state2 False) = Return (None, st')
      \<and> destroyed st' = [(0, ''trident_v2'')]
      \<and> map_of (ps_transactions (storeClient st')) ''v2'' = None"
proof -
  have pre: "txn_Op ex_txn = AddVolumeOp" "''v2'' = cfg_Name (txn_Config ex_txn)"
    "map_of (volumes (ex_state2 False)) ''v2'' = None"
    by (simp_all add: ex_defs)
  have on: "[(''b1'', 0)] = onlineBackends (ex_state2 False) (backends (ex_state2 False))"
    by (simp add: ex_defs onlineBackends_def)
  have ok: "[(''b1'', 0)] = takeWhile (\<lambda>nb. destroyResult no_faults (ex_state2 False) ''v2'' nb = None)
                 [(''b1'', 0)]"
    by (simp add: no_faults_def destroyResult_def)
  have del: "f_DeleteVolumeTransaction no_faults True ''v2'' AddVolumeOp = None"
    by (simp add: no_faults_def)
  have d0: "destroyed (ex_state2 False) = []"
    by (simp add: ex_state2_def)
  have nm: "GetInternalVolumeName (backendObjs (ex_state2 False) 0) ''v2'' = ''trident_v2''"
    by (simp add: ex_defs GetInternalVolumeName_def)
  from rollBackTransaction_AddVolume_absent [OF pre on ok] del d0 nm
  show ?thesis by fastforce
qed


text \<open>
  Claim C4 as stated fails: with two online backends and a failing \<^verbatim>\<open>Destroy\<close> on the first,
  the rollback returns the error at once and the second online backend is never called.
\<close>

theorem rollBackTransaction_stops_at_first_failure:
  "rollBackTransaction (no_faults\<lparr>f_Destroy := (\<lambda>b i. if b = ''b1'' then Some (Errorf ''busy'') else None)\<rparr>)
     ex_txn (ex_state2 True)
   = Return (Some (Errorf ''Error attempting to clean up volume v2 from backend b1:  busy''),
             (ex_state2 True)\<lparr>destroyed := [(0, ''trident_v2'')]\<rparr>)
   \<and> map_of (backends (ex_state2 True)) ''b2'' = Some 3
   \<and> be_Online (backendObjs (ex_state2 True) 3)"
  by (simp add: rollBackTransaction_def driver_Destroy_def GetInternalVolumeName_def Let_def ex_defs)

subsection \<open>AddVolume\<close>

lemmas AddVolume_defs = AddVolume_def AddVolume_deferred_def backend_AddVolume_def NewVolume_def
  pool_AddVolume_def GetStoragePoolsForProtocol_def store_GetExistingVolumeTransaction_def
  ConstructExternal_def

text \<open>
  Claim C1 does not hold of the code. \<^verbatim>\<open>AddVolume\<close> computes the effective protocol in the
  variable \<^verbatim>\<open>protocol\<close> and then calls \<^verbatim>\<open>GetStoragePoolsForProtocol(volumeConfig.Protocol)\<close>
  with the protocol of the request. For the request \<open>ex_request\<close> (protocol \<open>Any\<close>, access
  mode \<open>ReadWriteMany\<close>) the derived protocol is \<open>File\<close>, and the class returns only the
  pool of the file backend for \<open>File\<close>; yet with the permutation \<open>[1, 0]\<close> the volume is
  created on pool \<open>p2\<close> of the block backend \<open>b2\<close>.
\<close>

theorem AddVolume_pools_for_requested_protocol:
  "getProtocol (cfg_AccessMode ex_request) = File
   \<and> GetStoragePoolsForProtocol ex_state3 ex_gold File = [1]
   \<and> (\<exists>st'. AddVolume (no_faults\<lparr>perm := (\<lambda>n. rev [0..<n])\<rparr>) ex_request ex_state3
         = Return ((Some \<lparr>vx_Config = ex_request\<lparr>cfg_Protocol := Block, cfg_Version := ''1''\<rparr>,
                          vx_Backend = ''b2'', vx_Pool = ''p2''\<rparr>, None), st')
        \<and> be_Protocol (backendObjs st' 3) = Block
        \<and> map_of (pool_Volumes (poolObjs st' 4)) ''v2'' = map_of (volumes st') ''v2''
        \<and> map_of (volumes st') ''v2'' = Some 6)"
  by (simp add: AddVolume_defs store_defs ex_defs Let_def)







subsection \<open>AddStorageBackend\<close>

lemma checkPoolsOfClass_extends:
  "checkPoolsOfClass st sc scName nb vcs errs = Return errs' \<Longrightarrow> \<exists>more. errs' = errs @ more"
proof (induction vcs arbitrary: errs)
  case Nil
  then show ?case by simp
next
  case (Cons vcName vcs)
  show ?case
  proof (cases "map_of (be_Storage (backendObjs st nb)) vcName")
    case None
    with Cons show ?thesis by simp
  next
    case (Some newVC)
    show ?thesis
    proof (cases sc)
      case None
      with Some Cons.prems show ?thesis by simp
    next
      case c: (Some c)
      show ?thesis
      proof (cases "Matches c (poolObjs st newVC)")
        case True
        with Some c Cons show ?thesis by simp
      next
        case False
        let ?m = "''Storage pool '' @ vcName @ '' has volumes with storage class ''
                      @ scName @ '', but it no longer satisfies that storage class''"
        from False Some c Cons.prems
        have "checkPoolsOfClass st sc scName nb vcs (errs @ [?m]) = Return errs'" by simp
        from Cons.IH[OF this] obtain more where "errs' = (errs @ [?m]) @ more" ..
        then have "errs' = errs @ (?m # more)" by simp
        then show ?thesis ..
      qed
    qed
  qed
qed

lemma checkStorageClasses_extends:
  "checkStorageClasses st nb m errs = Return errs' \<Longrightarrow> \<exists>more. errs' = errs @ more"
proof (induction m arbitrary: errs)
  case Nil
  then show ?case by simp
next
  case (Cons a m)
  obtain scName vcList where a: "a = (scName, vcList)" by (cases a)
  from Cons.prems a obtain e1 where
    1: "checkPoolsOfClass st (map_of (storageClasses st) scName) scName nb vcList errs = Return e1"
    and 2: "checkStorageClasses st nb m e1 = Return errs'"
    by (auto split: res.splits)
  from checkPoolsOfClass_extends[OF 1] Cons.IH[OF 2] show ?case by auto
qed

lemma checkPoolsOfClass_returns:
  "sc \<noteq> None \<Longrightarrow> \<exists>errs'. checkPoolsOfClass st sc scName nb vcs errs = Return errs'"
  by (induction vcs arbitrary: errs) (auto split: option.splits)

lemma checkStorageClasses_returns:
  "\<forall>(scName, vcList) \<in> set m. map_of (storageClasses st) scName \<noteq> None \<Longrightarrow>
   \<exists>errs'. checkStorageClasses st nb m errs = Return errs'"
proof (induction m arbitrary: errs)
  case Nil
  then show ?case by simp
next
  case (Cons a m)
  obtain scName vcList where a: "a = (scName, vcList)" by (cases a)
  with Cons.prems have "map_of (storageClasses st) scName \<noteq> None" by simp
  from checkPoolsOfClass_returns[OF this] obtain e1 where
    "checkPoolsOfClass st (map_of (storageClasses st) scName) scName nb vcList errs = Return e1"
    by blast
  moreover from Cons.prems have "\<exists>errs'. checkStorageClasses st nb m e1 = Return errs'"
    by (intro Cons.IH) simp
  ultimately show ?case using a by auto
qed

lemma validateBackendUpdate_invalid:
  assumes "invalidUpdate st ob nb"
  shows "validateBackendUpdate st ob nb = Panic
       \<or> (\<exists>msg. validateBackendUpdate st ob nb = Return (Some (Errorf msg)))"
proof -
  let ?e1 = "(if be_Protocol (backendObjs st ob) \<noteq> be_Protocol (backendObjs st nb)
             then [''Cannot change backend protocol''] else [])"
  let ?used = "map fst (filter (\<lambda>(name, vc). length (pool_Volumes (poolObjs st vc)) > 0)
                        (be_Storage (backendObjs st ob)))"
  let ?e2 = "?e1 @ map (\<lambda>vcName. ''In-use storage pool '' @ vcName @ '' not present in updated backend'')
              (filter (\<lambda>vcName. map_of (be_Storage (backendObjs st nb)) vcName = None) ?used)"
  have ne: "?e2 \<noteq> []"
  proof (cases "be_Protocol (backendObjs st ob) \<noteq> be_Protocol (backendObjs st nb)")
    case True
    then show ?thesis by simp
  next
    case False
    with assms obtain name vc where "(name, vc) \<in> set (be_Storage (backendObjs st ob))"
      "pool_Volumes (poolObjs st vc) \<noteq> []" "map_of (be_Storage (backendObjs st nb)) name = None"
      by (auto simp: invalidUpdate_def)
    then have "name \<in> set (filter (\<lambda>vcName. map_of (be_Storage (backendObjs st nb)) vcName = None) ?used)"
      by force
    then show ?thesis by (auto simp: filter_empty_conv)
  qed
  show ?thesis
  proof (cases "checkStorageClasses st nb (vcsForStorageClasses st ob) ?e2")
    case Panic
    then show ?thesis by (simp add: validateBackendUpdate_def Let_def)
  next
    case (Return errs)
    from checkStorageClasses_extends[OF this] ne have "errs \<noteq> []" by auto
    with Return show ?thesis by (simp add: validateBackendUpdate_def Let_def)
  qed
qed

lemma validateBackendUpdate_returns:
  assumes "\<forall>(scName, vcList) \<in> set (vcsForStorageClasses st ob). map_of (storageClasses st) scName \<noteq> None"
  shows "validateBackendUpdate st ob nb \<noteq> Panic"
proof -
  let ?e2 = "(if be_Protocol (backendObjs st ob) \<noteq> be_Protocol (backendObjs st nb)
             then [''Cannot change backend protocol''] else [])
          @ map (\<lambda>vcName. ''In-use storage pool '' @ vcName @ '' not present in updated backend'')
              (filter (\<lambda>vcName. map_of (be_Storage (backendObjs st nb)) vcName = None)
                (map fst (filter (\<lambda>(name, vc). length (pool_Volumes (poolObjs st vc)) > 0)
                        (be_Storage (backendObjs st ob)))))"
  from checkStorageClasses_returns[OF assms, of nb ?e2] obtain errs where
    "checkStorageClasses st nb (vcsForStorageClasses st ob) ?e2 = Return errs" ..
  then show ?thesis by (simp add: validateBackendUpdate_def Let_def)
qed

lemma validateBackendUpdate_invalid_registered:
  assumes "invalidUpdate st ob nb"
    and "\<forall>(scName, vcList) \<in> set (vcsForStorageClasses st ob). map_of (storageClasses st) scName \<noteq> None"
  shows "\<exists>msg. validateBackendUpdate st ob nb = Return (Some (Errorf msg))"
  using validateBackendUpdate_invalid[OF assms(1)] validateBackendUpdate_returns[OF assms(2)]
  by blast

lemma addVc_keys:
  "fst ` set (addVcForStorageClass scName vcName m) = insert scName (fst ` set m)"
  by (simp add: addVcForStorageClass_def dom_update)

lemma fold_volumes_keys:
  "fst ` set (fold (\<lambda>(volName, volume) m.
        addVcForStorageClass (cfg_StorageClass (vol_Config (volumeObjs st volume))) vcName m) vols m)
   = fst ` set m \<union> (\<lambda>(volName, v). cfg_StorageClass (vol_Config (volumeObjs st v))) ` set vols"
proof (induction vols arbitrary: m)
  case Nil
  then show ?case by simp
next
  case (Cons a vols)
  obtain volName v where a: "a = (volName, v)" by (cases a)
  show ?case unfolding a by (simp add: Cons.IH addVc_keys)
qed

lemma fold_pools_keys:
  "fst ` set (fold (\<lambda>(vcName, vc) m.
             fold (\<lambda>(volName, volume) m.
                     addVcForStorageClass (cfg_StorageClass (vol_Config (volumeObjs st volume))) vcName m)
               (pool_Volumes (poolObjs st vc)) m) pools m)
   = fst ` set m \<union> (\<Union>(vcName, vc) \<in> set pools.
        (\<lambda>(volName, v). cfg_StorageClass (vol_Config (volumeObjs st v))) ` set (pool_Volumes (poolObjs st vc)))"
proof (induction pools arbitrary: m)
  case Nil
  then show ?case by simp
next
  case (Cons a pools)
  obtain vcName vc where a: "a = (vcName, vc)" by (cases a)
  show ?case unfolding a by (simp add: Cons.IH fold_volumes_keys Un_assoc)
qed

lemma vcsForStorageClasses_registered:
  assumes "classesRegistered st ob"
  shows "\<forall>(scName, vcList) \<in> set (vcsForStorageClasses st ob). map_of (storageClasses st) scName \<noteq> None"
proof -
  have "fst ` set (vcsForStorageClasses st ob)
      = (\<Union>(vcName, vc) \<in> set (be_Storage (backendObjs st ob)).
        (\<lambda>(volName, v). cfg_StorageClass (vol_Config (volumeObjs st v))) ` set (pool_Volumes (poolObjs st vc)))"
    unfolding vcsForStorageClasses_def by (simp add: fold_pools_keys)
  moreover have "\<forall>sc \<in> (\<Union>(vcName, vc) \<in> set (be_Storage (backendObjs st ob)).
        (\<lambda>(volName, v). cfg_StorageClass (vol_Config (volumeObjs st v))) ` set (pool_Volumes (poolObjs st vc))).
      map_of (storageClasses st) sc \<noteq> None"
    using assms unfolding classesRegistered_def by auto
  ultimately have "\<forall>sc \<in> fst ` set (vcsForStorageClasses st ob). map_of (storageClasses st) sc \<noteq> None"
    by simp
  then show ?thesis by force
qed

lemma vcsForStorageClasses_cong:
  assumes "backendObjs st1 ob = backendObjs st ob" and "volumeObjs st1 = volumeObjs st"
    and "\<forall>(n, p) \<in> set (be_Storage (backendObjs st ob)). poolObjs st1 p = poolObjs st p"
  shows "vcsForStorageClasses st1 ob = vcsForStorageClasses st ob"
  unfolding vcsForStorageClasses_def assms(1) assms(2)
  by (rule fold_cong) (use assms(3) in auto)

lemma classesRegistered_cong:
  assumes "backendObjs st1 ob = backendObjs st ob" and "volumeObjs st1 = volumeObjs st"
    and "storageClasses st1 = storageClasses st"
    and "\<forall>(n, p) \<in> set (be_Storage (backendObjs st ob)). poolObjs st1 p = poolObjs st p"
  shows "classesRegistered st1 ob = classesRegistered st ob"
  unfolding classesRegistered_def assms(1) assms(2) assms(3) using assms(4) by fastforce

lemma buildBackend_fields [simp]:
  "backends (buildBackend config st) = backends st"
  "volumes (buildBackend config st) = volumes st"
  "storageClasses (buildBackend config st) = storageClasses st"
  "volumeObjs (buildBackend config st) = volumeObjs st"
  "storeClient (buildBackend config st) = storeClient st"
  "bootstrapped (buildBackend config st) = bootstrapped st"
  "destroyed (buildBackend config st) = destroyed st"
  "slept (buildBackend config st) = slept st"
  "nextRef (buildBackend config st) = Suc (nextRef st) + length (bc_Pools config)"
  by (simp_all add: buildBackend_def Let_def)

lemma buildBackend_old [simp]:
  "r < nextRef st \<Longrightarrow> backendObjs (buildBackend config st) r = backendObjs st r"
  "r < nextRef st \<Longrightarrow> poolObjs (buildBackend config st) r = poolObjs st r"
  by (simp_all add: buildBackend_def Let_def)

lemma buildBackend_new [simp]:
  "backendObjs (buildBackend config st) (nextRef st) =
     \<lparr>be_Name = bc_Name config, be_Online = True,
      be_Protocol = bc_Protocol config, be_DriverName = bc_DriverName config,
      be_StoragePrefix = bc_StoragePrefix config,
      be_Storage = zip (map fst (bc_Pools config))
         [Suc (nextRef st) ..< Suc (nextRef st) + length (bc_Pools config)]\<rparr>"
  by (simp add: buildBackend_def Let_def)

lemma buildBackend_new_pool:
  "Suc (nextRef st) \<le> p \<Longrightarrow> p < Suc (nextRef st) + length (bc_Pools config) \<Longrightarrow>
     poolObjs (buildBackend config st) p = emptyPool (nextRef st) (bc_Pools config ! (p - Suc (nextRef st)))"
  by (simp add: buildBackend_def Let_def)

lemma map_of_zip_upt_None:
  "map_of (zip (map fst ps) [a ..< a + length ps]) k = None \<longleftrightarrow> k \<notin> fst ` set ps"
proof -
  have "length (map fst ps) = length [a ..< a + length ps]" by simp
  from map_of_zip_is_None[OF this, of k] show ?thesis by (simp only: set_map)
qed

lemma AddStorageBackend_invalid_update:
  assumes fac: "f_NewStorageBackendForConfig env config = None"
    and ob: "map_of (backends st) (bc_Name config) = Some ob"
    and al: "allocated st ob"
    and inv: "configInvalidates st ob config"
  shows "AddStorageBackend env config st = Panic
       \<or> (\<exists>msg. AddStorageBackend env config st = Return ((None, Some (Errorf msg)), st))"
    and "classesRegistered st ob \<Longrightarrow>
         \<exists>msg. AddStorageBackend env config st = Return ((None, Some (Errorf msg)), st)"
proof -
  define st1 where "st1 = buildBackend config st"
  have n: "NewStorageBackendForConfig env config st = Inr (nextRef st, st1)"
    using fac by (simp add: NewStorageBackendForConfig_def st1_def)
  have b: "backends st1 = backends st" and sc: "storageClasses st1 = storageClasses st"
    and v: "volumeObjs st1 = volumeObjs st"
    and bo: "\<And>r. r < nextRef st \<Longrightarrow> backendObjs st1 r = backendObjs st r"
    and po: "\<And>r. r < nextRef st \<Longrightarrow> poolObjs st1 r = poolObjs st r"
    and nm: "be_Name (backendObjs st1 (nextRef st)) = bc_Name config"
    and pr: "be_Protocol (backendObjs st1 (nextRef st)) = bc_Protocol config"
    and sto: "be_Storage (backendObjs st1 (nextRef st))
          = zip (map fst (bc_Pools config)) [Suc (nextRef st) ..< Suc (nextRef st) + length (bc_Pools config)]"
    by (simp_all add: st1_def)
  from al have ob1: "backendObjs st1 ob = backendObjs st ob"
    and pools1: "\<forall>(n, p) \<in> set (be_Storage (backendObjs st ob)). poolObjs st1 p = poolObjs st p"
    using bo po by (auto simp: allocated_def)
  have none: "map_of (be_Storage (backendObjs st1 (nextRef st))) name = None
       \<longleftrightarrow> name \<notin> fst ` set (bc_Pools config)" for name
    unfolding sto by (rule map_of_zip_upt_None)
  have iu: "invalidUpdate st1 ob (nextRef st)"
    using inv pools1 unfolding invalidUpdate_def configInvalidates_def ob1 pr none by fastforce
  have look: "map_of (backends st1) (be_Name (backendObjs st1 (nextRef st))) = Some ob"
    using ob b nm by simp
  have panic: "AddStorageBackend env config st = Panic"
    if "validateBackendUpdate st1 ob (nextRef st) = Panic"
    using that n look by (simp add: AddStorageBackend_def)
  have err: "AddStorageBackend env config st = Return ((None, Some (Errorf msg)), st)"
    if "validateBackendUpdate st1 ob (nextRef st) = Return (Some (Errorf msg))" for msg
    using that n look by (simp add: AddStorageBackend_def)
  from validateBackendUpdate_invalid[OF iu] panic err
  show "AddStorageBackend env config st = Panic
       \<or> (\<exists>msg. AddStorageBackend env config st = Return ((None, Some (Errorf msg)), st))"
    by blast
  assume "classesRegistered st ob"
  then have "classesRegistered st1 ob"
    using classesRegistered_cong[OF ob1 v sc pools1] by simp
  from validateBackendUpdate_invalid_registered[OF iu vcsForStorageClasses_registered[OF this]] err
  show "\<exists>msg. AddStorageBackend env config st = Return ((None, Some (Errorf msg)), st)"
    by blast
qed

lemmas AddStorageBackend_defs = AddStorageBackend_def NewStorageBackendForConfig_def
  buildBackend_def emptyPool_def validateBackendUpdate_def vcsForStorageClasses_def
  addVcForStorageClass_def Matches_def updateBackendOnPersistentStore_def

text \<open>
  Claim C6 does not hold of the code. In \<open>ex_state True\<close> the volume \<open>v1\<close> on pool \<open>p1\<close> of
  backend \<open>b1\<close> names the storage class \<open>gold\<close>, which is not registered (it was deleted,
  which \<^verbatim>\<open>DeleteStorageClass\<close> allows while volumes use it). Updating \<open>b1\<close> with a
  configuration that changes the protocol and keeps \<open>p1\<close> does not return the error of an
  invalid update: \<^verbatim>\<open>validateBackendUpdate\<close> reads \<^verbatim>\<open>o.storageClasses["gold"]\<close>, which is nil, and
  calls \<^verbatim>\<open>Matches\<close> on it.
\<close>

theorem AddStorageBackend_update_panics:
  "map_of (backends (ex_state True)) (bc_Name ex_update) = Some 0
   \<and> be_Protocol (backendObjs (ex_state True) 0) \<noteq> bc_Protocol ex_update
   \<and> map_of (storageClasses (ex_state True))
        (cfg_StorageClass (vol_Config (volumeObjs (ex_state True) 2))) = None
   \<and> AddStorageBackend no_faults ex_update (ex_state True) = Panic"
  by (simp add: AddStorageBackend_defs Let_def ex_defs)

text \<open>
  With the class registered (\<open>ex_state3\<close>) the same update is rejected and the state is
  unchanged.
\<close>

lemma AddStorageBackend_update_rejected:
  "AddStorageBackend no_faults ex_update ex_state3
   = Return ((None, Some (Errorf (''Cannot update backend:'' @ [CHR 0x0A, CHR 0x09]
        @ ''Cannot change backend protocol''))), ex_state3)"
  by (simp add: AddStorageBackend_defs Let_def ex_defs)

lemma rebindVolumes_effect:
  assumes "map_of (be_Storage (backendObjs st nb)) vcName = Some np"
    and "distinct (map fst vols)"
  shows "\<exists>st'. rebindVolumes nb vcName vols st = Return st'
     \<and> backendObjs st' = backendObjs st \<and> backends st' = backends st
     \<and> storageClasses st' = storageClasses st \<and> storeClient st' = storeClient st
     \<and> (\<forall>p. p \<noteq> np \<longrightarrow> poolObjs st' p = poolObjs st p)
     \<and> (\<forall>v. v \<notin> snd ` set vols \<longrightarrow> volumeObjs st' v = volumeObjs st v)
     \<and> (\<forall>k. k \<notin> fst ` set vols \<longrightarrow>
            map_of (pool_Volumes (poolObjs st' np)) k = map_of (pool_Volumes (poolObjs st np)) k)
     \<and> (\<forall>(k, v) \<in> set vols. vol_Backend (volumeObjs st' v) = nb \<and> vol_Pool (volumeObjs st' v) = np
            \<and> map_of (pool_Volumes (poolObjs st' np)) k = Some v)"
  using assms
proof (induction vols arbitrary: st)
  case Nil
  then show ?case by simp
next
  case (Cons a vols)
  obtain k v where a: "a = (k, v)" by (cases a)
  define st1 where "st1 = st\<lparr>volumeObjs := (volumeObjs st)(v :=
                   (volumeObjs st v)\<lparr>vol_Backend := nb, vol_Pool := np\<rparr>),
                poolObjs := (poolObjs st)(np :=
                   (poolObjs st np)\<lparr>pool_Volumes :=
                      AList.update k v (pool_Volumes (poolObjs st np))\<rparr>)\<rparr>"
  have step: "rebindVolumes nb vcName (a # vols) st = rebindVolumes nb vcName vols st1"
    using Cons.prems(1) by (simp add: a st1_def)
  have n1: "map_of (be_Storage (backendObjs st1 nb)) vcName = Some np"
    using Cons.prems(1) by (simp add: st1_def)
  from Cons.prems(2) have d: "distinct (map fst vols)" and k: "k \<notin> fst ` set vols"
    by (simp_all add: a)
  from Cons.IH[OF n1 d] obtain st' where r: "rebindVolumes nb vcName vols st1 = Return st'"
    and f1: "backendObjs st' = backendObjs st1" "backends st' = backends st1"
      "storageClasses st' = storageClasses st1" "storeClient st' = storeClient st1"
    and f2: "\<forall>p. p \<noteq> np \<longrightarrow> poolObjs st' p = poolObjs st1 p"
    and f3: "\<forall>v. v \<notin> snd ` set vols \<longrightarrow> volumeObjs st' v = volumeObjs st1 v"
    and f4: "\<forall>k. k \<notin> fst ` set vols \<longrightarrow>
            map_of (pool_Volumes (poolObjs st' np)) k = map_of (pool_Volumes (poolObjs st1 np)) k"
    and f5: "\<forall>(k, v) \<in> set vols. vol_Backend (volumeObjs st' v) = nb \<and> vol_Pool (volumeObjs st' v) = np
            \<and> map_of (pool_Volumes (poolObjs st' np)) k = Some v"
    by blast
  have hd_ok: "vol_Backend (volumeObjs st' v) = nb \<and> vol_Pool (volumeObjs st' v) = np
            \<and> map_of (pool_Volumes (poolObjs st' np)) k = Some v"
  proof -
    have "map_of (pool_Volumes (poolObjs st' np)) k = Some v"
      using f4 k by (simp add: st1_def update_conv')
    moreover have "vol_Backend (volumeObjs st' v) = nb \<and> vol_Pool (volumeObjs st' v) = np"
    proof (cases "v \<in> snd ` set vols")
      case True
      with f5 show ?thesis by force
    next
      case False
      with f3 show ?thesis by (simp add: st1_def)
    qed
    ultimately show ?thesis by simp
  qed
  show ?case
    unfolding step r
    using f1 f2 f3 f4 f5 hd_ok
    by (simp add: a st1_def update_conv')
qed

lemma rebindPools_effect:
  assumes present: "\<forall>(vcName, vc) \<in> set ops. pool_Volumes (poolObjs st vc) \<noteq> [] \<longrightarrow>
                      map_of (be_Storage (backendObjs st nb)) vcName \<noteq> None"
    and old: "\<forall>(vcName, vc) \<in> set ops. vc \<notin> snd ` set (be_Storage (backendObjs st nb))"
    and keys: "distinct (map fst ops)"
    and inj: "\<forall>k1 k2 p. map_of (be_Storage (backendObjs st nb)) k1 = Some p
                \<and> map_of (be_Storage (backendObjs st nb)) k2 = Some p \<longrightarrow> k1 = k2"
    and names: "\<forall>(vcName, vc) \<in> set ops. distinct (map fst (pool_Volumes (poolObjs st vc)))"
    and refs: "distinct (concat (map (\<lambda>(n, vc). map snd (pool_Volumes (poolObjs st vc))) ops))"
  shows "\<exists>st'. rebindPools nb ops st = Return st'
     \<and> backendObjs st' = backendObjs st \<and> backends st' = backends st
     \<and> storageClasses st' = storageClasses st \<and> storeClient st' = storeClient st
     \<and> (\<forall>p. (\<forall>(vcName, vc) \<in> set ops. map_of (be_Storage (backendObjs st nb)) vcName \<noteq> Some p)
            \<longrightarrow> poolObjs st' p = poolObjs st p)
     \<and> (\<forall>v. (\<forall>(vcName, vc) \<in> set ops. v \<notin> snd ` set (pool_Volumes (poolObjs st vc)))
            \<longrightarrow> volumeObjs st' v = volumeObjs st v)
     \<and> (\<forall>(vcName, vc) \<in> set ops. \<forall>(k, v) \<in> set (pool_Volumes (poolObjs st vc)).
            rebound st' nb vcName k v)"
  using assms
proof (induction ops arbitrary: st)
  case Nil
  then show ?case by simp
next
  case (Cons a ops)
  obtain vcName vc where a: "a = (vcName, vc)" by (cases a)
  let ?N = "be_Storage (backendObjs st nb)"
  let ?vols = "pool_Volumes (poolObjs st vc)"
  \<comment> \<open>the volumes of the first pool\<close>
  have "\<exists>st1. rebindVolumes nb vcName ?vols st = Return st1
     \<and> backendObjs st1 = backendObjs st \<and> backends st1 = backends st
     \<and> storageClasses st1 = storageClasses st \<and> storeClient st1 = storeClient st
     \<and> (\<forall>p. map_of ?N vcName \<noteq> Some p \<longrightarrow> poolObjs st1 p = poolObjs st p)
     \<and> (\<forall>v. v \<notin> snd ` set ?vols \<longrightarrow> volumeObjs st1 v = volumeObjs st v)
     \<and> (\<forall>(k, v) \<in> set ?vols. rebound st1 nb vcName k v)"
  proof (cases "?vols = []")
    case True
    then show ?thesis by simp
  next
    case False
    with Cons.prems(1) a obtain np where np: "map_of ?N vcName = Some np" by auto
    from Cons.prems(5) a have "distinct (map fst ?vols)" by simp
    from rebindVolumes_effect[OF np this] np show ?thesis
      unfolding rebound_def by fastforce
  qed
  then obtain st1 where r1: "rebindVolumes nb vcName ?vols st = Return st1"
    and b1: "backendObjs st1 = backendObjs st" and o1: "backends st1 = backends st"
      "storageClasses st1 = storageClasses st" "storeClient st1 = storeClient st"
    and p1: "\<forall>p. map_of ?N vcName \<noteq> Some p \<longrightarrow> poolObjs st1 p = poolObjs st p"
    and v1: "\<forall>v. v \<notin> snd ` set ?vols \<longrightarrow> volumeObjs st1 v = volumeObjs st v"
    and h1: "\<forall>(k, v) \<in> set ?vols. rebound st1 nb vcName k v"
    by blast
  \<comment> \<open>the old pools are untouched\<close>
  have same: "poolObjs st1 vc' = poolObjs st vc'" if "(n', vc') \<in> set (a # ops)" for n' vc'
  proof -
    from Cons.prems(2) that have "vc' \<notin> snd ` set ?N" by auto
    then have "map_of ?N vcName \<noteq> Some vc'"
      by (metis map_of_SomeD image_eqI snd_conv)
    with p1 show ?thesis by simp
  qed
  have same': "\<forall>(n', vc') \<in> set ops. poolObjs st1 vc' = poolObjs st vc'"
    using same by auto
  have pr: "\<forall>(vcName, vc) \<in> set ops. pool_Volumes (poolObjs st1 vc) \<noteq> [] \<longrightarrow>
                      map_of (be_Storage (backendObjs st1 nb)) vcName \<noteq> None"
    using Cons.prems(1) same' unfolding b1 by (fastforce simp: a)
  have ol: "\<forall>(vcName, vc) \<in> set ops. vc \<notin> snd ` set (be_Storage (backendObjs st1 nb))"
    using Cons.prems(2) unfolding b1 by (simp add: a)
  have ke: "distinct (map fst ops)"
    using Cons.prems(3) by simp
  have ij: "\<forall>k1 k2 p. map_of (be_Storage (backendObjs st1 nb)) k1 = Some p
                \<and> map_of (be_Storage (backendObjs st1 nb)) k2 = Some p \<longrightarrow> k1 = k2"
    using Cons.prems(4) unfolding b1 .
  have na: "\<forall>(vcName, vc) \<in> set ops. distinct (map fst (pool_Volumes (poolObjs st1 vc)))"
    using Cons.prems(5) same' by (fastforce simp: a)
  have eqv: "map (\<lambda>(n, vc). map snd (pool_Volumes (poolObjs st1 vc))) ops
           = map (\<lambda>(n, vc). map snd (pool_Volumes (poolObjs st vc))) ops"
    using same' by (intro map_cong) auto
  have re: "distinct (concat (map (\<lambda>(n, vc). map snd (pool_Volumes (poolObjs st1 vc))) ops))"
    unfolding eqv using Cons.prems(6) by (simp add: a)
  from Cons.IH[OF pr ol ke ij na re] obtain st' where r2: "rebindPools nb ops st1 = Return st'"
    and b2: "backendObjs st' = backendObjs st1" and o2: "backends st' = backends st1"
      "storageClasses st' = storageClasses st1" "storeClient st' = storeClient st1"
    and p2: "\<forall>p. (\<forall>(vcName, vc) \<in> set ops. map_of (be_Storage (backendObjs st1 nb)) vcName \<noteq> Some p)
            \<longrightarrow> poolObjs st' p = poolObjs st1 p"
    and v2: "\<forall>v. (\<forall>(vcName, vc) \<in> set ops. v \<notin> snd ` set (pool_Volumes (poolObjs st1 vc)))
            \<longrightarrow> volumeObjs st' v = volumeObjs st1 v"
    and h2: "\<forall>(vcName, vc) \<in> set ops. \<forall>(k, v) \<in> set (pool_Volumes (poolObjs st1 vc)).
            rebound st' nb vcName k v"
    by blast
  have run: "rebindPools nb (a # ops) st = Return st'"
    using r1 r2 by (simp add: a)
  \<comment> \<open>what was done for the first pool survives the rest\<close>
  have keep: "rebound st' nb vcName k v" if kv: "(k, v) \<in> set ?vols" for k v
  proof -
    from h1 kv have h: "rebound st1 nb vcName k v" by auto
    then obtain np where np: "map_of ?N vcName = Some np"
      unfolding rebound_def b1 by (auto split: option.splits)
    have "\<forall>(n', vc') \<in> set ops. map_of (be_Storage (backendObjs st1 nb)) n' \<noteq> Some np"
    proof (clarify)
      fix n' vc' assume m: "(n', vc') \<in> set ops" and e: "map_of (be_Storage (backendObjs st1 nb)) n' = Some np"
      from Cons.prems(4) np e have "n' = vcName" unfolding b1 by blast
      with m Cons.prems(3) show False by (force simp: a)
    qed
    with p2 have pp: "poolObjs st' np = poolObjs st1 np" by blast
    have "v \<notin> snd ` set (pool_Volumes (poolObjs st1 vc'))" if m: "(n', vc') \<in> set ops" for n' vc'
    proof
      assume "v \<in> snd ` set (pool_Volumes (poolObjs st1 vc'))"
      with same[of n' vc'] m have "v \<in> set (map snd (pool_Volumes (poolObjs st vc')))" by simp
      with m have "v \<in> set (concat (map (\<lambda>(n, vc). map snd (pool_Volumes (poolObjs st vc))) ops))"
        by force
      moreover from kv have "v \<in> set (map snd ?vols)" by force
      ultimately show False using Cons.prems(6) by (auto simp: a)
    qed
    then have "\<forall>(n', vc') \<in> set ops. v \<notin> snd ` set (pool_Volumes (poolObjs st1 vc'))"
      by blast
    with v2 have vv: "volumeObjs st' v = volumeObjs st1 v" by blast
    from h np pp vv show ?thesis by (simp add: rebound_def b2 b1)
  qed
  have frame_p: "poolObjs st' p = poolObjs st p"
    if "\<forall>(vcName, vc) \<in> set (a # ops). map_of ?N vcName \<noteq> Some p" for p
    using that p1 p2 unfolding b1 by (auto simp: a)
  have frame_v: "volumeObjs st' v = volumeObjs st v"
    if "\<forall>(vcName, vc) \<in> set (a # ops). v \<notin> snd ` set (pool_Volumes (poolObjs st vc))" for v
  proof -
    from that have "v \<notin> snd ` set ?vols" by (simp add: a)
    with v1 have 1: "volumeObjs st1 v = volumeObjs st v" by simp
    from that same' have "\<forall>(vcName, vc) \<in> set ops. v \<notin> snd ` set (pool_Volumes (poolObjs st1 vc))"
      by (fastforce simp: a)
    with v2 1 show ?thesis by simp
  qed
  have rest: "rebound st' nb n' k v"
    if "(n', vc') \<in> set ops" "(k, v) \<in> set (pool_Volumes (poolObjs st vc'))" for n' vc' k v
    using that h2 same[of n' vc'] by force
  show ?case
    unfolding run using b1 b2 o1 o2 frame_p frame_v keep rest
    by (auto simp: a)
qed

lemma CheckAndAddBackend_frame:
  assumes "CheckAndAddBackend sc b st = (n, sc', st')"
  shows "backendObjs st' = backendObjs st \<and> volumeObjs st' = volumeObjs st
     \<and> backends st' = backends st \<and> volumes st' = volumes st
     \<and> storeClient st' = storeClient st \<and> nextRef st' = nextRef st
     \<and> bootstrapped st' = bootstrapped st
     \<and> (\<forall>p. pool_Volumes (poolObjs st' p) = pool_Volumes (poolObjs st p)
            \<and> pool_Backend (poolObjs st' p) = pool_Backend (poolObjs st p))"
  using assms by (auto simp: CheckAndAddBackend_def Let_def)

lemma updateStorageClasses_frame:
  assumes "updateStorageClasses newBackend ob nb scs st = (scs', classes, st')"
  shows "backendObjs st' = backendObjs st \<and> volumeObjs st' = volumeObjs st
     \<and> backends st' = backends st \<and> volumes st' = volumes st
     \<and> storeClient st' = storeClient st \<and> nextRef st' = nextRef st
     \<and> bootstrapped st' = bootstrapped st
     \<and> (\<forall>p. pool_Volumes (poolObjs st' p) = pool_Volumes (poolObjs st p)
            \<and> pool_Backend (poolObjs st' p) = pool_Backend (poolObjs st p))"
  using assms
proof (induction scs arbitrary: st scs' classes st')
  case Nil
  then show ?case by simp
next
  case (Cons a scs)
  obtain n storageClass where a: "a = (n, storageClass)" by (cases a)
  define sc1 where "sc1 = (case ob of
                   Some ob \<Rightarrow> if \<not> newBackend then RemovePoolsForBackend storageClass ob st
                              else storageClass
                 | None \<Rightarrow> storageClass)"
  obtain added sc2 st1 where c: "CheckAndAddBackend sc1 nb st = (added, sc2, st1)"
    by (cases "CheckAndAddBackend sc1 nb st")
  obtain rest' cl st2 where u: "updateStorageClasses newBackend ob nb scs st1 = (rest', cl, st2)"
    by (cases "updateStorageClasses newBackend ob nb scs st1")
  from Cons.prems have "st' = st2"
    by (simp add: a sc1_def[symmetric] c u Let_def)
  with Cons.IH[OF u] CheckAndAddBackend_frame[OF c] show ?case by simp
qed

lemma map_of_zip_inj:
  assumes "distinct vs" and "map_of (zip ks vs) k1 = Some p" and "map_of (zip ks vs) k2 = Some p"
  shows "k1 = k2"
proof -
  from assms(2,3) have "(k1, p) \<in> set (zip ks vs)" "(k2, p) \<in> set (zip ks vs)"
    by (auto dest: map_of_SomeD)
  then obtain i j where i: "ks ! i = k1" "vs ! i = p" "i < length ks" "i < length vs"
    and j: "ks ! j = k2" "vs ! j = p" "j < length ks" "j < length vs"
    by (auto simp: in_set_zip)
  with assms(1) have "i = j" by (metis nth_eq_iff_index_eq)
  with i j show ?thesis by simp
qed

lemma validateBackendUpdate_passes:
  "validateBackendUpdate st ob nb = Return None \<Longrightarrow> \<not> invalidUpdate st ob nb"
  using validateBackendUpdate_invalid[of st ob nb] by auto

text \<open>
  Claim C7. \<^verbatim>\<open>AddStorageBackend\<close> with a configuration whose name is registered, where the
  validation of the old backend against the new one passes and the store accepts the
  update: the call returns the new backend without error; the registry maps the name to
  the new backend object; and every volume in a volume map of a pool of the old backend
  is rebound to the new backend object under the pool's name and its own name (its backend
  reference is the new object, its pool reference is the new object's pool of the same
  name, and that pool's volume map holds it).
\<close>

theorem AddStorageBackend_rebinds_volumes:
  assumes fac: "f_NewStorageBackendForConfig env config = None"
    and ob: "map_of (backends st) (bc_Name config) = Some ob"
    and al: "allocated st ob" and wf: "wellFormedBackend st ob"
    and valid: "validateBackendUpdate (buildBackend config st) ob (nextRef st) = Return None"
    and store: "bootstrapped st \<longrightarrow> f_UpdateBackend env (bc_Name config) = None"
  shows "\<exists>ext st'. AddStorageBackend env config st = Return ((Some ext, None), st')
     \<and> map_of (backends st') (bc_Name config) = Some (nextRef st)
     \<and> (\<forall>(vcName, vc) \<in> set (be_Storage (backendObjs st ob)).
          \<forall>(volName, vol) \<in> set (pool_Volumes (poolObjs st vc)).
            rebound st' (nextRef st) vcName volName vol)"
proof -
  define nb where "nb = nextRef st"
  define st1 where "st1 = buildBackend config st"
  have n: "NewStorageBackendForConfig env config st = Inr (nb, st1)"
    using fac by (simp add: NewStorageBackendForConfig_def st1_def nb_def)
  from al have ob_lt: "ob < nextRef st"
    and pools_lt: "\<forall>(n, p) \<in> set (be_Storage (backendObjs st ob)). p < nextRef st"
    by (auto simp: allocated_def)
  have ob1: "backendObjs st1 ob = backendObjs st ob"
    using ob_lt by (simp add: st1_def)
  have pools1: "\<forall>(n, p) \<in> set (be_Storage (backendObjs st ob)). poolObjs st1 p = poolObjs st p"
    using pools_lt by (auto simp: st1_def)
  have new1: "be_Name (backendObjs st1 nb) = bc_Name config"
    "be_Storage (backendObjs st1 nb)
       = zip (map fst (bc_Pools config)) [Suc nb ..< Suc nb + length (bc_Pools config)]"
    by (simp_all add: st1_def nb_def)
  have look: "map_of (backends st1) (be_Name (backendObjs st1 nb)) = Some ob"
    using ob by (simp add: st1_def nb_def)
  \<comment> \<open>the store\<close>
  obtain st2 where up: "updateBackendOnPersistentStore env nb False st1 = (None, st2)"
    and s2: "backendObjs st2 = backendObjs st1" "poolObjs st2 = poolObjs st1"
      "volumeObjs st2 = volumeObjs st1" "backends st2 = backends st1"
      "storageClasses st2 = storageClasses st1"
    using store new1(1)
    by (cases "bootstrapped st")
       (auto simp: updateBackendOnPersistentStore_def store_defs st1_def)
  define st3 where "st3 = st2\<lparr>backends := AList.update (be_Name (backendObjs st2 nb)) nb (backends st2)\<rparr>"
  obtain scs classes st4 where us:
    "updateStorageClasses False (Some ob) nb (storageClasses st3) st3 = (scs, classes, st4)"
    by (cases "updateStorageClasses False (Some ob) nb (storageClasses st3) st3")
  define st5 where "st5 = st4\<lparr>storageClasses := scs\<rparr>"
  from updateStorageClasses_frame[OF us]
  have s5: "backendObjs st5 = backendObjs st1" "volumeObjs st5 = volumeObjs st1"
    "backends st5 = AList.update (bc_Name config) nb (backends st)"
    and pv5: "\<And>p. pool_Volumes (poolObjs st5 p) = pool_Volumes (poolObjs st1 p)"
    using s2 new1(1) by (simp_all add: st5_def st3_def st1_def)
  have old5: "backendObjs st5 ob = backendObjs st ob"
    using s5(1) ob1 by simp
  have vols5: "\<forall>(n, p) \<in> set (be_Storage (backendObjs st ob)).
       pool_Volumes (poolObjs st5 p) = pool_Volumes (poolObjs st p)"
    using pv5 pools1 by auto
  \<comment> \<open>the conditions of the rebinding\<close>
  let ?ops = "be_Storage (backendObjs st ob)"
  from validateBackendUpdate_passes valid have "\<not> invalidUpdate st1 ob nb"
    by (simp add: st1_def nb_def)
  then have present: "\<forall>(vcName, vc) \<in> set ?ops. pool_Volumes (poolObjs st5 vc) \<noteq> [] \<longrightarrow>
                      map_of (be_Storage (backendObjs st5 nb)) vcName \<noteq> None"
    unfolding invalidUpdate_def ob1 s5(1) using vols5 pools1 by fastforce
  have range: "snd ` set (be_Storage (backendObjs st5 nb)) \<subseteq> {Suc nb ..< Suc nb + length (bc_Pools config)}"
  proof
    fix p assume "p \<in> snd ` set (be_Storage (backendObjs st5 nb))"
    then obtain k where "(k, p) \<in> set (zip (map fst (bc_Pools config))
        [Suc nb ..< Suc nb + length (bc_Pools config)])"
      unfolding s5(1) new1(2) by force
    then have "p \<in> set [Suc nb ..< Suc nb + length (bc_Pools config)]"
      by (rule set_zip_rightD)
    then show "p \<in> {Suc nb ..< Suc nb + length (bc_Pools config)}"
      by (simp only: set_upt)
  qed
  have old: "\<forall>(vcName, vc) \<in> set ?ops. vc \<notin> snd ` set (be_Storage (backendObjs st5 nb))"
    using range pools_lt unfolding nb_def by fastforce
  have keys: "distinct (map fst ?ops)"
    using wf by (simp add: wellFormedBackend_def)
  have inj: "\<forall>k1 k2 p. map_of (be_Storage (backendObjs st5 nb)) k1 = Some p
                \<and> map_of (be_Storage (backendObjs st5 nb)) k2 = Some p \<longrightarrow> k1 = k2"
  proof (intro allI impI)
    fix k1 k2 p
    assume "map_of (be_Storage (backendObjs st5 nb)) k1 = Some p
                \<and> map_of (be_Storage (backendObjs st5 nb)) k2 = Some p"
    then show "k1 = k2"
      unfolding s5(1) new1(2)
      using map_of_zip_inj[of "[Suc nb ..< Suc nb + length (bc_Pools config)]"
              "map fst (bc_Pools config)" k1 p k2]
      by (simp only: distinct_upt simp_thms)
  qed
  have names: "\<forall>(vcName, vc) \<in> set ?ops. distinct (map fst (pool_Volumes (poolObjs st5 vc)))"
    using wf vols5 by (fastforce simp: wellFormedBackend_def)
  have eqv: "map (\<lambda>(n, vc). map snd (pool_Volumes (poolObjs st5 vc))) ?ops
           = map (\<lambda>(n, vc). map snd (pool_Volumes (poolObjs st vc))) ?ops"
    using vols5 by (intro map_cong) auto
  have refs: "distinct (concat (map (\<lambda>(n, vc). map snd (pool_Volumes (poolObjs st5 vc))) ?ops))"
    unfolding eqv using wf by (simp add: wellFormedBackend_def)
  from rebindPools_effect[OF present old keys inj names refs] obtain st6 where
    rb: "rebindPools nb ?ops st5 = Return st6"
    and b6: "backends st6 = backends st5"
    and h6: "\<forall>(vcName, vc) \<in> set ?ops. \<forall>(k, v) \<in> set (pool_Volumes (poolObjs st5 vc)).
            rebound st6 nb vcName k v"
    by blast
  have us': "updateStorageClasses False (Some ob) nb (storageClasses st2) st3 = (scs, classes, st4)"
    using us by (simp add: st3_def)
  have old4: "backendObjs st4 ob = backendObjs st ob"
    using old5 by (simp add: st5_def)
  have valid1: "validateBackendUpdate st1 ob nb = Return None"
    using valid by (simp add: st1_def nb_def)
  have run: "AddStorageBackend env config st
      = Return ((Some (ConstructExternalBackend st6 nb), None), st6)"
    using n look valid1 up us' rb
    by (simp add: AddStorageBackend_def Let_def st3_def[symmetric] old4 st5_def[symmetric])
  have "map_of (backends st6) (bc_Name config) = Some nb"
    unfolding b6 s5(3) by (simp add: update_conv')
  moreover have "\<forall>(vcName, vc) \<in> set ?ops. \<forall>(volName, vol) \<in> set (pool_Volumes (poolObjs st vc)).
            rebound st6 nb vcName volName vol"
    using h6 vols5 by fastforce
  ultimately show ?thesis
    unfolding run nb_def[symmetric] by blast
qed

theorem AddStorageBackend_rebinds_volumes_witness:
  "\<exists>ext st'. AddStorageBackend no_faults ex_update_ok ex_state3 = Return ((Some ext, None), st')
     \<and> map_of (backends st') ''b1'' = Some 6
     \<and> rebound st' 6 ''p1'' ''v1'' 2"
proof -
  have h1: "f_NewStorageBackendForConfig no_faults ex_update_ok = None"
    by (simp add: no_faults_def)
  have h2: "map_of (backends ex_state3) (bc_Name ex_update_ok) = Some 0"
    by (simp add: ex_defs)
  have h3: "allocated ex_state3 0"
    by (simp add: allocated_def ex_defs)
  have h4: "wellFormedBackend ex_state3 0"
    by (simp add: wellFormedBackend_def ex_defs)
  have h5: "validateBackendUpdate (buildBackend ex_update_ok ex_state3) 0 (nextRef ex_state3)
      = Return None"
    by (simp add: AddStorageBackend_defs Let_def ex_defs)
  have h6: "bootstrapped ex_state3 \<longrightarrow> f_UpdateBackend no_faults (bc_Name ex_update_ok) = None"
    by (simp add: no_faults_def)
  have s: "be_Storage (backendObjs ex_state3 0) = [(''p1'', 1)]"
    "pool_Volumes (poolObjs ex_state3 1) = [(''v1'', 2)]" "nextRef ex_state3 = 6"
    "bc_Name ex_update_ok = ''b1''"
    by (simp_all add: ex_defs)
  from AddStorageBackend_rebinds_volumes [OF h1 h2 h3 h4 h5 h6] s
  show ?thesis by simp
qed

subsection \<open>Bootstrap\<close>

lemma store_GetBackends_slept [simp]:
  "store_GetBackends env (st\<lparr>slept := s\<rparr>) i = store_GetBackends env st i"
  by (simp add: store_GetBackends_def split: option.splits)

lemma retryGetBackends_result:
  assumes "t \<le> MaxBootstrapAttempts env"
  shows "\<exists>t'. t \<le> t' \<and> t' \<le> MaxBootstrapAttempts env
      \<and> (\<forall>i. t \<le> i \<and> i < t' \<longrightarrow> store_GetBackends env st i = Inl DeadlineExceeded)
      \<and> (t' < MaxBootstrapAttempts env \<longrightarrow> store_GetBackends env st t' \<noteq> Inl DeadlineExceeded)
      \<and> retryGetBackends env t (store_GetBackends env st t) (st\<lparr>slept := s\<rparr>)
          = (t', store_GetBackends env st t', st\<lparr>slept := s + (t' - t)\<rparr>)"
  using assms
proof (induction "MaxBootstrapAttempts env - t" arbitrary: t s)
  case 0
  then have "t = MaxBootstrapAttempts env" by simp
  then show ?case by (intro exI[of _ t]) auto
next
  case (Suc n)
  then have lt: "t < MaxBootstrapAttempts env" by simp
  show ?case
  proof (cases "store_GetBackends env st t = Inl DeadlineExceeded")
    case False
    then show ?thesis using lt by (intro exI[of _ t]) auto
  next
    case True
    from Suc.hyps(2) lt have n: "n = MaxBootstrapAttempts env - Suc t" by simp
    from lt have le: "Suc t \<le> MaxBootstrapAttempts env" by simp
    from Suc.hyps(1)[OF n le, of "s + 1"] obtain t' where
      a: "Suc t \<le> t'" "t' \<le> MaxBootstrapAttempts env"
      and b: "\<forall>i. Suc t \<le> i \<and> i < t' \<longrightarrow> store_GetBackends env st i = Inl DeadlineExceeded"
      and c: "t' < MaxBootstrapAttempts env \<longrightarrow> store_GetBackends env st t' \<noteq> Inl DeadlineExceeded"
      and d: "retryGetBackends env (Suc t) (store_GetBackends env st (Suc t)) (st\<lparr>slept := s + 1\<rparr>)
          = (t', store_GetBackends env st t', st\<lparr>slept := s + 1 + (t' - Suc t)\<rparr>)"
      by blast
    have e: "\<forall>i. t \<le> i \<and> i < t' \<longrightarrow> store_GetBackends env st i = Inl DeadlineExceeded"
      using True b by (metis Suc_leI le_neq_implies_less)
    have f: "s + 1 + (t' - Suc t) = s + (t' - t)" using a by simp
    have "retryGetBackends env t (store_GetBackends env st t) (st\<lparr>slept := s\<rparr>)
          = (t', store_GetBackends env st t', st\<lparr>slept := s + (t' - t)\<rparr>)"
      using True lt d f by simp
    with a c e show ?thesis by (intro exI[of _ t']) simp
  qed
qed

text \<open>
  Claim C9. In \<^verbatim>\<open>bootstrapBackends\<close> the store is asked for the backends; as long as the
  answer is \<^verbatim>\<open>DeadlineExceeded\<close> and fewer than \<^verbatim>\<open>MaxBootstrapAttempts\<close> retries were made, the
  orchestrator sleeps a second and asks again. So there is a number of retries, at most
  \<^verbatim>\<open>MaxBootstrapAttempts\<close>, such that every earlier answer was \<^verbatim>\<open>DeadlineExceeded\<close>, the
  orchestrator has slept that many seconds, and the answer to the last call is not
  \<^verbatim>\<open>DeadlineExceeded\<close> unless the retries are used up; if that answer is an error,
  \<^verbatim>\<open>bootstrapBackends\<close> returns it, and otherwise it goes on to add the backends returned.
\<close>

theorem bootstrapBackends_retry:
  "\<exists>tries \<le> MaxBootstrapAttempts env.
      (\<forall>i < tries. store_GetBackends env st i = Inl DeadlineExceeded)
    \<and> (tries < MaxBootstrapAttempts env \<longrightarrow> store_GetBackends env st tries \<noteq> Inl DeadlineExceeded)
    \<and> bootstrapBackends env st =
        (case store_GetBackends env st tries of
           Inl err \<Rightarrow> Return (Some err, st\<lparr>slept := slept st + tries\<rparr>)
         | Inr persistentBackends \<Rightarrow>
             addPersistentBackends env persistentBackends (st\<lparr>slept := slept st + tries\<rparr>))"
proof -
  have "0 \<le> MaxBootstrapAttempts env" by simp
  from retryGetBackends_result[OF this, of st "slept st"] obtain t' where
    a: "t' \<le> MaxBootstrapAttempts env"
    and b: "\<forall>i. 0 \<le> i \<and> i < t' \<longrightarrow> store_GetBackends env st i = Inl DeadlineExceeded"
    and c: "t' < MaxBootstrapAttempts env \<longrightarrow> store_GetBackends env st t' \<noteq> Inl DeadlineExceeded"
    and d: "retryGetBackends env 0 (store_GetBackends env st 0) (st\<lparr>slept := slept st\<rparr>)
          = (t', store_GetBackends env st t', st\<lparr>slept := slept st + (t' - 0)\<rparr>)"
    by blast
  from d have "bootstrapBackends env st =
        (case store_GetBackends env st t' of
           Inl err \<Rightarrow> Return (Some err, st\<lparr>slept := slept st + t'\<rparr>)
         | Inr persistentBackends \<Rightarrow>
             addPersistentBackends env persistentBackends (st\<lparr>slept := slept st + t'\<rparr>))"
    by (simp add: bootstrapBackends_def split: sum.splits)
  with a b c show ?thesis by auto
qed

theorem bootstrapBackends_retry_witness:
  "bootstrapBackends (no_faults\<lparr>f_GetBackends := (\<lambda>i. if i < 2 then Some DeadlineExceeded else None)\<rparr>)
     (NewTridentOrchestrator (ex_store True))
   = addPersistentBackends
       (no_faults\<lparr>f_GetBackends := (\<lambda>i. if i < 2 then Some DeadlineExceeded else None)\<rparr>)
       (map snd (ps_backends (ex_store True)))
       ((NewTridentOrchestrator (ex_store True))\<lparr>slept := 2\<rparr>)"
proof -
  let ?env = "no_faults\<lparr>f_GetBackends := (\<lambda>i. if i < 2 then Some DeadlineExceeded else None)\<rparr>"
  let ?st = "NewTridentOrchestrator (ex_store True)"
  have ans: "store_GetBackends ?env ?st i
      = (if i < 2 then Inl DeadlineExceeded else Inr (map snd (ps_backends (ex_store True))))" for i
    by (simp add: store_GetBackends_def NewTridentOrchestrator_def)
  have m: "MaxBootstrapAttempts ?env = 10" by (simp add: no_faults_def)
  from bootstrapBackends_retry[of ?env ?st] obtain tries where
    a: "tries \<le> 10"
    and b: "\<forall>i < tries. store_GetBackends ?env ?st i = Inl DeadlineExceeded"
    and c: "tries < 10 \<longrightarrow> store_GetBackends ?env ?st tries \<noteq> Inl DeadlineExceeded"
    and d: "bootstrapBackends ?env ?st =
        (case store_GetBackends ?env ?st tries of
           Inl err \<Rightarrow> Return (Some err, ?st\<lparr>slept := slept ?st + tries\<rparr>)
         | Inr persistentBackends \<Rightarrow>
             addPersistentBackends ?env persistentBackends (?st\<lparr>slept := slept ?st + tries\<rparr>))"
    unfolding m by blast
  have "\<not> 2 < tries"
  proof
    assume "2 < tries"
    with b have "store_GetBackends ?env ?st 2 = Inl DeadlineExceeded" by blast
    then show False by (simp add: ans)
  qed
  moreover have "\<not> tries < 2"
  proof
    assume "tries < 2"
    with c have "store_GetBackends ?env ?st tries \<noteq> Inl DeadlineExceeded" by simp
    with \<open>tries < 2\<close> show False by (simp add: ans)
  qed
  ultimately have t: "tries = 2" by simp
  have a2: "store_GetBackends ?env ?st 2 = Inr (map snd (ps_backends (ex_store True)))"
    by (simp add: ans)
  have sl: "slept ?st + 2 = 2" by (simp add: NewTridentOrchestrator_def)
  show ?thesis using d unfolding t a2 sl by (simp only: sum.case)
qed

lemma bootstrapSteps_append:
  "bootstrapSteps pre st = Return (None, st0) \<Longrightarrow>
   bootstrapSteps (pre @ rest) st = bootstrapSteps rest st0"
proof (induction pre arbitrary: st)
  case Nil
  then show ?case by simp
next
  case (Cons f pre)
  show ?case
  proof (cases "f st")
    case Panic
    with Cons.prems show ?thesis by simp
  next
    case (Return r)
    obtain e s where r: "r = (e, s)" by (cases r)
    show ?thesis
    proof (cases e)
      case None
      with Return r Cons show ?thesis by simp
    next
      case (Some err)
      with Return r Cons show ?thesis
        by (cases err) (simp_all split: if_splits)
    qed
  qed
qed

text \<open>
  What \<^verbatim>\<open>bootstrap\<close> does with the error of a step (backends, storage classes, volumes,
  transactions), the steps before it having let the bootstrap go on. If the error is a
  \<open>KeyError\<close>, the bootstrap goes on with the steps after it, from the state that the step
  left, and then cleans up the backends. If the error's message is not \<open>KeyErrorMsg\<close>,
  \<^verbatim>\<open>bootstrap\<close> returns that error at once.
\<close>

lemma bootstrap_step_error:
  assumes steps: "pre @ f # post = [bootstrapBackends env, bootstrapStorageClasses env,
                                     bootstrapVolumes env, bootstrapVolTxns env]"
    and before: "bootstrapSteps pre st = Return (None, st0)"
    and step: "f st0 = Return (Some err, st1)"
  shows "((\<exists>key. err = KeyError key) \<longrightarrow>
            bootstrap env st =
              (case bootstrapSteps post st1 of
                 Panic \<Rightarrow> Panic
               | Return (Some e, s) \<Rightarrow> Return (Some e, s)
               | Return (None, s) \<Rightarrow> Return (cleanUpBackends env (backends s) s)))
       \<and> (Error err \<noteq> KeyErrorMsg \<longrightarrow> bootstrap env st = Return (Some err, st1))"
proof -
  have run: "bootstrapSteps (pre @ f # post) st = bootstrapSteps (f # post) st0"
    using before by (rule bootstrapSteps_append)
  have k: "bootstrapSteps (f # post) st0 = bootstrapSteps post st1" if "err = KeyError key" for key
    using step that by simp
  have o: "bootstrapSteps (f # post) st0 = Return (Some err, st1)" if "Error err \<noteq> KeyErrorMsg"
    using step that by simp
  show ?thesis
    unfolding bootstrap_def steps[symmetric] run using k o by auto
qed

lemmas bootstrap_defs = bootstrapBackends_def bootstrapStorageClasses_def bootstrapVolumes_def
  bootstrapVolTxns_def store_GetBackends_def NewTridentOrchestrator_def

text \<open>
  On an empty store: a \<open>KeyError\<close> from \<^verbatim>\<open>GetStorageClasses\<close> is passed over and the bootstrap
  completes, another error from it is returned.
\<close>

lemma bootstrap_step_error_example:
  "bootstrap (no_faults\<lparr>f_GetStorageClasses := Some (KeyError ''storage_class'')\<rparr>)
     (NewTridentOrchestrator ex_empty)
   = Return (None, NewTridentOrchestrator ex_empty)
   \<and> bootstrap (no_faults\<lparr>f_GetStorageClasses := Some (Errorf ''connection refused'')\<rparr>)
       (NewTridentOrchestrator ex_empty)
     = Return (Some (Errorf ''connection refused''), NewTridentOrchestrator ex_empty)"
proof -
  let ?st = "NewTridentOrchestrator ex_empty"
  have 1: "bootstrap env ?st =
      (case bootstrapSteps [bootstrapVolumes env, bootstrapVolTxns env] ?st of
                 Panic \<Rightarrow> Panic
               | Return (Some e, s) \<Rightarrow> Return (Some e, s)
               | Return (None, s) \<Rightarrow> Return (cleanUpBackends env (backends s) s))"
    if "env = no_faults\<lparr>f_GetStorageClasses := Some (KeyError ''storage_class'')\<rparr>" for env
  proof -
    have s: "[bootstrapBackends env] @ bootstrapStorageClasses env
               # [bootstrapVolumes env, bootstrapVolTxns env]
             = [bootstrapBackends env, bootstrapStorageClasses env,
                bootstrapVolumes env, bootstrapVolTxns env]" by simp
    have b: "bootstrapSteps [bootstrapBackends env] ?st = Return (None, ?st)"
      unfolding that by (simp add: bootstrap_defs ex_defs)
    have f: "bootstrapStorageClasses env ?st = Return (Some (KeyError ''storage_class''), ?st)"
      unfolding that by (simp add: bootstrap_defs ex_defs)
    from bootstrap_step_error[OF s b f] show ?thesis by simp
  qed
  have 2: "bootstrap env ?st = Return (Some (Errorf ''connection refused''), ?st)"
    if "env = no_faults\<lparr>f_GetStorageClasses := Some (Errorf ''connection refused'')\<rparr>" for env
  proof -
    have s: "[bootstrapBackends env] @ bootstrapStorageClasses env
               # [bootstrapVolumes env, bootstrapVolTxns env]
             = [bootstrapBackends env, bootstrapStorageClasses env,
                bootstrapVolumes env, bootstrapVolTxns env]" by simp
    have b: "bootstrapSteps [bootstrapBackends env] ?st = Return (None, ?st)"
      unfolding that by (simp add: bootstrap_defs ex_defs)
    have f: "bootstrapStorageClasses env ?st = Return (Some (Errorf ''connection refused''), ?st)"
      unfolding that by (simp add: bootstrap_defs ex_defs)
    from bootstrap_step_error[OF s b f] show ?thesis by (simp add: KeyErrorMsg_def)
  qed
  have 3: "bootstrapSteps [bootstrapVolumes env, bootstrapVolTxns env] ?st = Return (None, ?st)"
    if "env = no_faults\<lparr>f_GetStorageClasses := Some (KeyError ''storage_class'')\<rparr>" for env
    unfolding that by (simp add: bootstrap_defs ex_defs)
  show ?thesis
    using 1[OF refl] 2[OF refl] 3[OF refl]
    by (simp add: NewTridentOrchestrator_def)
qed

text \<open>
  Claim C2 does not hold of the code. \<^verbatim>\<open>bootstrap\<close> tests the message of a step's error
  against \<open>KeyErrorMsg\<close> and then asserts the type \<open>KeyError\<close> without the two-valued form
  of the assertion. When the store answers \<^verbatim>\<open>GetBackends\<close> with an error that is not a
  \<open>KeyError\<close> but carries that message, \<^verbatim>\<open>bootstrapBackends\<close> returns that error, and
  \<^verbatim>\<open>bootstrap\<close> does not abort with it: \<^verbatim>\<open>err.(persistent_store.KeyError)\<close> panics.
\<close>

theorem bootstrap_panics_on_other_error:
  "bootstrapBackends (no_faults\<lparr>f_GetBackends := (\<lambda>_. Some (Errorf ''Unable to find key''))\<rparr>)
     (NewTridentOrchestrator ex_empty)
   = Return (Some (Errorf ''Unable to find key''), NewTridentOrchestrator ex_empty)
   \<and> bootstrap (no_faults\<lparr>f_GetBackends := (\<lambda>_. Some (Errorf ''Unable to find key''))\<rparr>)
       (NewTridentOrchestrator ex_empty) = Panic"
  by (simp add: bootstrap_def bootstrap_defs KeyErrorMsg_def ex_defs)

subsection \<open>Offline backends without volumes\<close>






















end
